theory Spec2Isabelle
  imports Complex_Main "HOL-Library.AList"
begin

section \<open>Data model\<close>

text \<open>
  The messages of \<^verbatim>\<open>metadata_store_pb2\<close> and \<^verbatim>\<open>pipeline_pb2\<close> that
  \<^verbatim>\<open>context_lib.py\<close> reads and writes. A scalar proto field that was never set
  reads as 0 (the code never tests presence), so ids are plain integers and a freshly
  built message has id 0. A proto map is an association list; its order is the order in
  which \<^verbatim>\<open>.items()\<close> yields the entries, and \<open>map_of\<close> is the lookup.
\<close>

datatype property_type =
  PT_UNKNOWN | PT_INT | PT_DOUBLE | PT_STRING | PT_STRUCT | PT_PROTO | PT_BOOLEAN

datatype mlmd_value =
    IntValue int
  | DoubleValue real
  | StringValue string
  | StructValue string
  | ProtoValue string
  | BoolValue bool

datatype pipeline_value = Value (field_value: mlmd_value)

record context_type =
  ct_id :: int
  ct_name :: string
  ct_properties :: "(string \<times> property_type) list"

record context_spec =
  spec_type :: context_type
  spec_name :: pipeline_value
  spec_properties :: "(string \<times> pipeline_value) list"

record mlmd_context =
  c_id :: int
  c_type_id :: int
  c_name :: string
  c_properties :: "(string \<times> mlmd_value) list"
  c_custom_properties :: "(string \<times> mlmd_value) list"

record parent_context =
  parent_id :: int
  child_id :: int

text \<open>
  Every exception the modelled code can raise or let through. \<open>AlreadyExistsError\<close> is
  \<^verbatim>\<open>mlmd.errors.AlreadyExistsError\<close>; \<open>OtherStoreError\<close> stands for every other
  failure of a store call (connectivity, permission, invalid argument), tagged by a
  message. \<open>PropertyTypeMismatch actual expected key\<close> is the \<^verbatim>\<open>RuntimeError\<close> of
  \<^verbatim>\<open>_generate_context_proto\<close>, whose message is formatted from these three values
  in this order. \<open>AssertionError\<close> carries the message of the failed \<^verbatim>\<open>assert\<close>.
  \<open>ValueError\<close> is the failed unpacking of \<^verbatim>\<open>[context_id] = ...\<close>, and
  \<open>TypeError\<close> a value of the wrong Python type handed to a proto field.
  \<open>OtherError\<close> stands for any other exception: a failed import, an exception of user
  code, a failed file operation.
\<close>

datatype error =
    AlreadyExistsError
  | OtherStoreError string
  | PropertyTypeMismatch property_type property_type string
  | AssertionError string
  | ValueError
  | TypeError
  | OtherError string

section \<open>The metadata handler and the log of store calls\<close>

text \<open>
  The MLMD store is an external collaborator. Its four entry points used by
  \<^verbatim>\<open>context_lib.py\<close> are the fields of a record of functions over an arbitrary store
  state \<open>'s\<close>: each takes the state and returns either an error or a value, together
  with the state afterwards. \<open>register_type_if_not_exist\<close> is
  \<^verbatim>\<open>common_utils.register_type_if_not_exist\<close>, the type registrar of another module
  of the repository, and is a parameter as well. Nothing is assumed about these
  functions: a handler may answer one call differently from the next, which is how the
  effect of concurrent writers appears to a single caller.
\<close>

record 's metadata_handler =
  get_context_by_type_and_name ::
    "string \<Rightarrow> mlmd_value \<Rightarrow> 's \<Rightarrow> (error + mlmd_context option) \<times> 's"
  put_contexts :: "mlmd_context list \<Rightarrow> 's \<Rightarrow> (error + int list) \<times> 's"
  put_parent_contexts :: "parent_context list \<Rightarrow> 's \<Rightarrow> (error + unit) \<times> 's"
  register_type_if_not_exist :: "context_type \<Rightarrow> 's \<Rightarrow> (error + context_type) \<times> 's"

datatype call =
    GetContextByTypeAndName string mlmd_value
  | RegisterTypeIfNotExist context_type
  | PutContexts "mlmd_context list"
  | PutParentContexts "parent_context list"

text \<open>
  The state threaded through the code: the store, and the calls made to it so far, oldest
  first. The log is ghost state: the code never reads it.
\<close>

record 's world =
  store :: 's
  calls :: "call list"

definition perform ::
  "call \<Rightarrow> ('s \<Rightarrow> (error + 'a) \<times> 's) \<Rightarrow> 's world \<Rightarrow> (error + 'a) \<times> 's world" where
  "perform c f w =
     (case f (store w) of
        (r, s') \<Rightarrow> (r, \<lparr>store = s', calls = calls w @ [c]\<rparr>))"

definition store_get_context_by_type_and_name ::
  "'s metadata_handler \<Rightarrow> string \<Rightarrow> mlmd_value \<Rightarrow> 's world
     \<Rightarrow> (error + mlmd_context option) \<times> 's world" where
  "store_get_context_by_type_and_name h type_name context_name =
     perform (GetContextByTypeAndName type_name context_name)
       (get_context_by_type_and_name h type_name context_name)"

definition store_put_contexts ::
  "'s metadata_handler \<Rightarrow> mlmd_context list \<Rightarrow> 's world \<Rightarrow> (error + int list) \<times> 's world" where
  "store_put_contexts h cs = perform (PutContexts cs) (put_contexts h cs)"

definition store_put_parent_contexts ::
  "'s metadata_handler \<Rightarrow> parent_context list \<Rightarrow> 's world \<Rightarrow> (error + unit) \<times> 's world" where
  "store_put_parent_contexts h ps = perform (PutParentContexts ps) (put_parent_contexts h ps)"

definition common_utils_register_type_if_not_exist ::
  "'s metadata_handler \<Rightarrow> context_type \<Rightarrow> 's world \<Rightarrow> (error + context_type) \<times> 's world" where
  "common_utils_register_type_if_not_exist h t =
     perform (RegisterTypeIfNotExist t) (register_type_if_not_exist h t)"

section \<open>Helpers of \<^verbatim>\<open>data_types_utils\<close>\<close>

text \<open>
  Modelled from the spec: \<^verbatim>\<open>data_types_utils.get_value\<close>,
  \<^verbatim>\<open>get_metadata_value_type\<close> and \<^verbatim>\<open>set_metadata_value\<close> are defined in another
  module, \<^verbatim>\<open>tfx/orchestration/data_types_utils.py\<close>, whose source is missing here. The
  specification's data model has typed property values whose kind is one of a closed
  tagged union, compared by equality with the schema's kind. A
  \<^verbatim>\<open>pipeline_pb2.Value\<close> is modelled in its resolved form, holding a field value:
  \<open>get_value\<close> reads the primitive it holds, \<open>get_metadata_value_type\<close> its kind, and
  \<open>set_metadata_value\<close> copies the field value into the target slot.
\<close>

definition get_value :: "pipeline_value \<Rightarrow> mlmd_value" where
  "get_value v = field_value v"

fun metadata_value_type :: "mlmd_value \<Rightarrow> property_type" where
  "metadata_value_type (IntValue _) = PT_INT"
| "metadata_value_type (DoubleValue _) = PT_DOUBLE"
| "metadata_value_type (StringValue _) = PT_STRING"
| "metadata_value_type (StructValue _) = PT_STRUCT"
| "metadata_value_type (ProtoValue _) = PT_PROTO"
| "metadata_value_type (BoolValue _) = PT_BOOLEAN"

definition get_metadata_value_type :: "pipeline_value \<Rightarrow> property_type" where
  "get_metadata_value_type v = metadata_value_type (field_value v)"

definition set_metadata_value ::
  "(string \<times> mlmd_value) list \<Rightarrow> string \<Rightarrow> pipeline_value \<Rightarrow> (string \<times> mlmd_value) list" where
  "set_metadata_value props k v = AList.update k (field_value v) props"

section \<open>\<^verbatim>\<open>context_lib.py\<close>\<close>

subsection \<open>\<^verbatim>\<open>_generate_context_proto\<close>\<close>

text \<open>
  The loop over \<^verbatim>\<open>context_spec.properties.items()\<close> (lines 58 to 68), with the
  schema \<^verbatim>\<open>context_type.properties\<close> and the message under construction. The
  \<^verbatim>\<open>raise\<close> of line 64 ends the loop.
\<close>

fun generate_properties ::
  "(string \<times> property_type) list \<Rightarrow> (string \<times> pipeline_value) list \<Rightarrow> mlmd_context
     \<Rightarrow> error + mlmd_context" where
  "generate_properties schema [] result = Inr result"
| "generate_properties schema ((k, v) # kvs) result =
     (case map_of schema k of
        Some expected \<Rightarrow>
          (let actual_property_type = get_metadata_value_type v in
           if expected = actual_property_type
           then generate_properties schema kvs
                  (result\<lparr>c_properties := set_metadata_value (c_properties result) k v\<rparr>)
           else Inl (PropertyTypeMismatch actual_property_type expected k))
      | None \<Rightarrow>
          generate_properties schema kvs
            (result\<lparr>c_custom_properties :=
                       set_metadata_value (c_custom_properties result) k v\<rparr>))"

definition generate_context_proto ::
  "'s metadata_handler \<Rightarrow> context_spec \<Rightarrow> 's world \<Rightarrow> (error + mlmd_context) \<times> 's world" where
  "generate_context_proto h context_spec w =
     (case common_utils_register_type_if_not_exist h (spec_type context_spec) w of
        (Inl e, w1) \<Rightarrow> (Inl e, w1)
      | (Inr context_type, w1) \<Rightarrow>
          (case get_value (spec_name context_spec) of
             StringValue context_name \<Rightarrow>
               (generate_properties (ct_properties context_type)
                  (spec_properties context_spec)
                  \<lparr>c_id = 0, c_type_id = ct_id context_type, c_name = context_name,
                   c_properties = [], c_custom_properties = []\<rparr>,
                w1)
           | _ \<Rightarrow> (Inl (AssertionError ''context name should be string.''), w1)))"

subsection \<open>\<^verbatim>\<open>put_parent_context_if_not_exists\<close>\<close>

text \<open>
  Lines 224 to 237. \<^verbatim>\<open>time.time()\<close> and \<^verbatim>\<open>telemetry_utils.noop_telemetry\<close>
  touch neither the store nor the result and are left out, here and below.
\<close>

definition put_parent_context_if_not_exists ::
  "'s metadata_handler \<Rightarrow> int \<Rightarrow> int \<Rightarrow> 's world \<Rightarrow> (error + unit) \<times> 's world" where
  "put_parent_context_if_not_exists h parent child w =
     (case store_put_parent_contexts h [\<lparr>parent_id = parent, child_id = child\<rparr>] w of
        (Inl AlreadyExistsError, w') \<Rightarrow> (Inr (), w')
      | (Inl e, w') \<Rightarrow> (Inl e, w')
      | (Inr u, w') \<Rightarrow> (Inr (), w'))"

subsection \<open>\<^verbatim>\<open>_register_context_if_not_exist\<close>\<close>

text \<open>The loop of lines 116 to 118 over the parent contexts, for the child id given.\<close>

fun put_parent_contexts_loop ::
  "'s metadata_handler \<Rightarrow> mlmd_context list \<Rightarrow> int \<Rightarrow> 's world \<Rightarrow> (error + unit) \<times> 's world" where
  "put_parent_contexts_loop h [] child w = (Inr (), w)"
| "put_parent_contexts_loop h (parent_context # rest) child w =
     (case put_parent_context_if_not_exists h (c_id parent_context) child w of
        (Inl e, w') \<Rightarrow> (Inl e, w')
      | (Inr u, w') \<Rightarrow> put_parent_contexts_loop h rest child w')"

text \<open>
  Lines 115 to 119: \<^verbatim>\<open>if parent_contexts:\<close> is false for \<^verbatim>\<open>None\<close> and for the
  empty list.
\<close>

definition link_parents_and_return ::
  "'s metadata_handler \<Rightarrow> mlmd_context list option \<Rightarrow> mlmd_context \<Rightarrow> 's world
     \<Rightarrow> (error + mlmd_context) \<times> 's world" where
  "link_parents_and_return h parent_contexts context w =
     (case parent_contexts of
        None \<Rightarrow> (Inr context, w)
      | Some [] \<Rightarrow> (Inr context, w)
      | Some ps \<Rightarrow>
          (case put_parent_contexts_loop h ps (c_id context) w of
             (Inl e, w') \<Rightarrow> (Inl e, w')
           | (Inr u, w') \<Rightarrow> (Inr context, w')))"

text \<open>
  The \<^verbatim>\<open>try\<close> statement of lines 101 to 111. Only \<^verbatim>\<open>AlreadyExistsError\<close> is
  caught; the handler reads the context again and asserts that it is there. The message of
  the assertion is formatted with the context name, which at this point is the string
  that \<^verbatim>\<open>_generate_context_proto\<close> has put into the name of the context built.
  The calls of \<^verbatim>\<open>logging.debug\<close> have no effect on the result or the store and are
  left out.
\<close>

definition put_context_or_reread ::
  "'s metadata_handler \<Rightarrow> string \<Rightarrow> mlmd_value \<Rightarrow> mlmd_context \<Rightarrow> 's world
     \<Rightarrow> (error + mlmd_context) \<times> 's world" where
  "put_context_or_reread h context_type_name context_name context w =
     (case store_put_contexts h [context] w of
        (Inr [context_id], w1) \<Rightarrow> (Inr (context\<lparr>c_id := context_id\<rparr>), w1)
      | (Inr _, w1) \<Rightarrow> (Inl ValueError, w1)
      | (Inl AlreadyExistsError, w1) \<Rightarrow>
          (case store_get_context_by_type_and_name h context_type_name context_name w1 of
             (Inl e, w2) \<Rightarrow> (Inl e, w2)
           | (Inr None, w2) \<Rightarrow>
               (Inl (AssertionError
                  (''Context is missing for '' @ c_name context
                     @ '' while put_contexts reports that it existed.'')), w2)
           | (Inr (Some existing), w2) \<Rightarrow> (Inr existing, w2))
      | (Inl e, w1) \<Rightarrow> (Inl e, w1))"

definition register_context_if_not_exist ::
  "'s metadata_handler \<Rightarrow> context_spec \<Rightarrow> mlmd_context list option \<Rightarrow> 's world
     \<Rightarrow> (error + mlmd_context) \<times> 's world" where
  "register_context_if_not_exist h context_spec parent_contexts w =
     (let context_type_name = ct_name (spec_type context_spec);
          context_name = get_value (spec_name context_spec)
      in case store_get_context_by_type_and_name h context_type_name context_name w of
           (Inl e, w1) \<Rightarrow> (Inl e, w1)
         | (Inr (Some context), w1) \<Rightarrow> (Inr context, w1)
         | (Inr None, w1) \<Rightarrow>
             (case generate_context_proto h context_spec w1 of
                (Inl e, w2) \<Rightarrow> (Inl e, w2)
              | (Inr context, w2) \<Rightarrow>
                  (case put_context_or_reread h context_type_name context_name context w2 of
                     (Inl e, w3) \<Rightarrow> (Inl e, w3)
                   | (Inr context', w3) \<Rightarrow>
                       link_parents_and_return h parent_contexts context' w3)))"

subsection \<open>\<^verbatim>\<open>register_context_if_not_exists\<close>\<close>

definition register_context_if_not_exists ::
  "'s metadata_handler \<Rightarrow> string \<Rightarrow> string \<Rightarrow> mlmd_context list option \<Rightarrow> 's world
     \<Rightarrow> (error + mlmd_context) \<times> 's world" where
  "register_context_if_not_exists h context_type_name context_name parent_contexts w =
     (let context_spec =
            \<lparr>spec_type = \<lparr>ct_id = 0, ct_name = context_type_name, ct_properties = []\<rparr>,
             spec_name = Value (StringValue context_name),
             spec_properties = []\<rparr>;
          register_res = register_context_if_not_exist h context_spec parent_contexts w
      in register_res)"

subsection \<open>\<^verbatim>\<open>prepare_contexts\<close>\<close>

text \<open>
  Modelled from the spec: the two constants are defined in
  \<^verbatim>\<open>tfx/dsl/compiler/constants.py\<close>, whose source is missing here. The specification's
  distinguished type names are
  \<^verbatim>\<open>PIPELINE\<close>, written \<^verbatim>\<open>"pipeline"\<close> in its end-to-end scenario, and
  \<^verbatim>\<open>PIPELINE_RUN\<close>.
\<close>

definition PIPELINE_CONTEXT_TYPE_NAME :: string where
  "PIPELINE_CONTEXT_TYPE_NAME = ''pipeline''"

definition PIPELINE_RUN_CONTEXT_TYPE_NAME :: string where
  "PIPELINE_RUN_CONTEXT_TYPE_NAME = ''pipeline_run''"

record node_contexts =
  contexts :: "context_spec list"

text \<open>
  The first loop (lines 184 to 189), over the specs still to visit, with the two lists it
  appends to.
\<close>

fun register_pipeline_contexts ::
  "'s metadata_handler \<Rightarrow> context_spec list \<Rightarrow> mlmd_context list \<Rightarrow> mlmd_context list
     \<Rightarrow> 's world \<Rightarrow> (error + mlmd_context list \<times> mlmd_context list) \<times> 's world" where
  "register_pipeline_contexts h [] pipeline_contexts result w =
     (Inr (pipeline_contexts, result), w)"
| "register_pipeline_contexts h (context_spec # rest) pipeline_contexts result w =
     (if ct_name (spec_type context_spec) = PIPELINE_CONTEXT_TYPE_NAME
      then (case register_context_if_not_exist h context_spec None w of
              (Inl e, w') \<Rightarrow> (Inl e, w')
            | (Inr pipeline_context, w') \<Rightarrow>
                register_pipeline_contexts h rest
                  (pipeline_contexts @ [pipeline_context]) (result @ [pipeline_context]) w')
      else register_pipeline_contexts h rest pipeline_contexts result w)"

text \<open>The second loop (lines 193 to 206).\<close>

fun register_other_contexts ::
  "'s metadata_handler \<Rightarrow> mlmd_context list \<Rightarrow> context_spec list \<Rightarrow> mlmd_context list
     \<Rightarrow> 's world \<Rightarrow> (error + mlmd_context list) \<times> 's world" where
  "register_other_contexts h pipeline_contexts [] result w = (Inr result, w)"
| "register_other_contexts h pipeline_contexts (context_spec # rest) result w =
     (if ct_name (spec_type context_spec) = PIPELINE_CONTEXT_TYPE_NAME
      then register_other_contexts h pipeline_contexts rest result w
      else
        (let parent_contexts =
               (if ct_name (spec_type context_spec) = PIPELINE_RUN_CONTEXT_TYPE_NAME
                then pipeline_contexts else [])
         in case register_context_if_not_exist h context_spec (Some parent_contexts) w of
              (Inl e, w') \<Rightarrow> (Inl e, w')
            | (Inr context, w') \<Rightarrow>
                register_other_contexts h pipeline_contexts rest (result @ [context]) w'))"

definition prepare_contexts ::
  "'s metadata_handler \<Rightarrow> node_contexts \<Rightarrow> 's world
     \<Rightarrow> (error + mlmd_context list) \<times> 's world" where
  "prepare_contexts h node_contexts w =
     (case register_pipeline_contexts h (contexts node_contexts) [] [] w of
        (Inl e, w1) \<Rightarrow> (Inl e, w1)
      | (Inr (pipeline_contexts, result), w1) \<Rightarrow>
          register_other_contexts h pipeline_contexts (contexts node_contexts) result w1)"

section \<open>The batch orchestrator as the specification words it\<close>

text \<open>
  Section 4.5 of the specification, written down independently of the loops above, for
  comparison with \<open>prepare_contexts\<close>. \<open>register_each\<close> registers a list of specs, each
  with its own parent list, in order, and collects the entities; the first failure ends
  it. \<open>register_batch\<close> is the two passes: every spec of type \<^verbatim>\<open>PIPELINE\<close> with no
  parents, then every remaining spec in the original order, a \<^verbatim>\<open>PIPELINE_RUN\<close> spec
  with all pipeline contexts of pass 1 as parents and any other spec with none; the
  output is the entities of pass 1 followed by those of pass 2.
\<close>

fun register_each ::
  "'s metadata_handler \<Rightarrow> (context_spec \<times> mlmd_context list) list \<Rightarrow> 's world
     \<Rightarrow> (error + mlmd_context list) \<times> 's world" where
  "register_each h [] w = (Inr [], w)"
| "register_each h ((spec, parents) # rest) w =
     (case register_context_if_not_exist h spec (Some parents) w of
        (Inl e, w') \<Rightarrow> (Inl e, w')
      | (Inr entity, w') \<Rightarrow>
          (case register_each h rest w' of
             (Inl e, w'') \<Rightarrow> (Inl e, w'')
           | (Inr entities, w'') \<Rightarrow> (Inr (entity # entities), w'')))"

definition is_pipeline :: "context_spec \<Rightarrow> bool" where
  "is_pipeline spec = (ct_name (spec_type spec) = PIPELINE_CONTEXT_TYPE_NAME)"

definition is_pipeline_run :: "context_spec \<Rightarrow> bool" where
  "is_pipeline_run spec = (ct_name (spec_type spec) = PIPELINE_RUN_CONTEXT_TYPE_NAME)"

definition pass2_parents :: "mlmd_context list \<Rightarrow> context_spec \<Rightarrow> mlmd_context list" where
  "pass2_parents pipeline_contexts spec =
     (if is_pipeline_run spec then pipeline_contexts else [])"

definition register_batch ::
  "'s metadata_handler \<Rightarrow> context_spec list \<Rightarrow> 's world
     \<Rightarrow> (error + mlmd_context list) \<times> 's world" where
  "register_batch h specs w =
     (case register_each h (map (\<lambda>spec. (spec, [])) (filter is_pipeline specs)) w of
        (Inl e, w1) \<Rightarrow> (Inl e, w1)
      | (Inr pipeline_contexts, w1) \<Rightarrow>
          (case register_each h
                  (map (\<lambda>spec. (spec, pass2_parents pipeline_contexts spec))
                     (filter (\<lambda>spec. \<not> is_pipeline spec) specs)) w1 of
             (Inl e, w2) \<Rightarrow> (Inl e, w2)
           | (Inr others, w2) \<Rightarrow> (Inr (pipeline_contexts @ others), w2)))"

section \<open>A reference store\<close>

text \<open>
  Modelled from the spec: the MLMD store is an external library. Section 6 of the
  specification gives its contract: lookup by type name and context name; entity insert
  returning the assigned id and failing with \<^verbatim>\<open>AlreadyExists\<close> on a collision of
  (type id, name); edge insert failing with \<^verbatim>\<open>AlreadyExists\<close> on a duplicate edge.
  Section 4.1 gives the type registrar: look the type up by name, insert it when absent,
  return the stored type. The store below keeps three tables in insertion order, assigns
  one more than the largest id in use, and applies a call with several rows entirely or
  not at all. A lookup needs a string as the name.
\<close>

record mem_store =
  ms_types :: "context_type list"
  ms_contexts :: "mlmd_context list"
  ms_parent_contexts :: "parent_context list"

definition next_id :: "int list \<Rightarrow> int" where
  "next_id ids = foldr max ids 0 + 1"

definition mem_get_context_by_type_and_name ::
  "string \<Rightarrow> mlmd_value \<Rightarrow> mem_store \<Rightarrow> (error + mlmd_context option) \<times> mem_store" where
  "mem_get_context_by_type_and_name type_name context_name s =
     (case context_name of
        StringValue n \<Rightarrow>
          (case find (\<lambda>t. ct_name t = type_name) (ms_types s) of
             None \<Rightarrow> (Inr None, s)
           | Some t \<Rightarrow>
               (Inr (find (\<lambda>c. c_type_id c = ct_id t \<and> c_name c = n) (ms_contexts s)), s))
      | _ \<Rightarrow> (Inl TypeError, s))"

fun insert_contexts :: "mlmd_context list \<Rightarrow> mem_store \<Rightarrow> error + int list \<times> mem_store" where
  "insert_contexts [] s = Inr ([], s)"
| "insert_contexts (c # cs) s =
     (case find (\<lambda>c'. c_type_id c' = c_type_id c \<and> c_name c' = c_name c) (ms_contexts s) of
        Some c' \<Rightarrow> Inl AlreadyExistsError
      | None \<Rightarrow>
          (let i = next_id (map c_id (ms_contexts s))
           in case insert_contexts cs (s\<lparr>ms_contexts := ms_contexts s @ [c\<lparr>c_id := i\<rparr>]\<rparr>) of
                Inl e \<Rightarrow> Inl e
              | Inr (ids, s') \<Rightarrow> Inr (i # ids, s')))"

definition mem_put_contexts ::
  "mlmd_context list \<Rightarrow> mem_store \<Rightarrow> (error + int list) \<times> mem_store" where
  "mem_put_contexts cs s =
     (case insert_contexts cs s of
        Inl e \<Rightarrow> (Inl e, s)
      | Inr (ids, s') \<Rightarrow> (Inr ids, s'))"

fun insert_parent_contexts :: "parent_context list \<Rightarrow> mem_store \<Rightarrow> error + mem_store" where
  "insert_parent_contexts [] s = Inr s"
| "insert_parent_contexts (p # ps) s =
     (if p \<in> set (ms_parent_contexts s) then Inl AlreadyExistsError
      else insert_parent_contexts ps (s\<lparr>ms_parent_contexts := ms_parent_contexts s @ [p]\<rparr>))"

definition mem_put_parent_contexts ::
  "parent_context list \<Rightarrow> mem_store \<Rightarrow> (error + unit) \<times> mem_store" where
  "mem_put_parent_contexts ps s =
     (case insert_parent_contexts ps s of
        Inl e \<Rightarrow> (Inl e, s)
      | Inr s' \<Rightarrow> (Inr (), s'))"

definition mem_register_type_if_not_exist ::
  "context_type \<Rightarrow> mem_store \<Rightarrow> (error + context_type) \<times> mem_store" where
  "mem_register_type_if_not_exist t s =
     (case find (\<lambda>t'. ct_name t' = ct_name t) (ms_types s) of
        Some t' \<Rightarrow> (Inr t', s)
      | None \<Rightarrow>
          (let t' = t\<lparr>ct_id := next_id (map ct_id (ms_types s))\<rparr>
           in (Inr t', s\<lparr>ms_types := ms_types s @ [t']\<rparr>)))"

definition mem_handler :: "mem_store metadata_handler" where
  "mem_handler =
     \<lparr>get_context_by_type_and_name = mem_get_context_by_type_and_name,
      put_contexts = mem_put_contexts,
      put_parent_contexts = mem_put_parent_contexts,
      register_type_if_not_exist = mem_register_type_if_not_exist\<rparr>"

definition empty_store :: mem_store where
  "empty_store = \<lparr>ms_types = [], ms_contexts = [], ms_parent_contexts = []\<rparr>"

text \<open>
  The same store shared with one concurrent writer. The second component holds the
  contexts that writer is about to insert; its insert is committed right after the next
  lookup of the caller under study, that is, between that caller's read and its own
  write. Every other call goes to the store unchanged.
\<close>

definition racing_handler :: "(mem_store \<times> mlmd_context list) metadata_handler" where
  "racing_handler =
     \<lparr>get_context_by_type_and_name =
        (\<lambda>type_name context_name (s, pending).
           case mem_get_context_by_type_and_name type_name context_name s of
             (r, s') \<Rightarrow> (r, (snd (mem_put_contexts pending s'), []))),
      put_contexts =
        (\<lambda>cs (s, pending). case mem_put_contexts cs s of (r, s') \<Rightarrow> (r, (s', pending))),
      put_parent_contexts =
        (\<lambda>ps (s, pending).
           case mem_put_parent_contexts ps s of (r, s') \<Rightarrow> (r, (s', pending))),
      register_type_if_not_exist =
        (\<lambda>t (s, pending).
           case mem_register_type_if_not_exist t s of (r, s') \<Rightarrow> (r, (s', pending)))\<rparr>"

text \<open>
  The same store read through a replica that lags behind: lookups are answered from the
  first component, a snapshot, and every write goes to the second, the primary. This is
  the read-after-write visibility gap in which an insert can report a collision with a
  row that a lookup does not show.
\<close>

definition lagging_handler :: "(mem_store \<times> mem_store) metadata_handler" where
  "lagging_handler =
     \<lparr>get_context_by_type_and_name =
        (\<lambda>type_name context_name (replica, primary).
           case mem_get_context_by_type_and_name type_name context_name replica of
             (r, replica') \<Rightarrow> (r, (replica', primary))),
      put_contexts =
        (\<lambda>cs (replica, primary).
           case mem_put_contexts cs primary of (r, primary') \<Rightarrow> (r, (replica, primary'))),
      put_parent_contexts =
        (\<lambda>ps (replica, primary).
           case mem_put_parent_contexts ps primary of
             (r, primary') \<Rightarrow> (r, (replica, primary'))),
      register_type_if_not_exist =
        (\<lambda>t (replica, primary).
           case mem_register_type_if_not_exist t primary of
             (r, primary') \<Rightarrow> (r, (replica, primary')))\<rparr>"

text \<open>A store that cannot be reached: every call fails with the same error.\<close>

definition unavailable_handler :: "unit metadata_handler" where
  "unavailable_handler =
     \<lparr>get_context_by_type_and_name = (\<lambda>type_name context_name s.
        (Inl (OtherStoreError ''unavailable''), s)),
      put_contexts = (\<lambda>cs s. (Inl (OtherStoreError ''unavailable''), s)),
      put_parent_contexts = (\<lambda>ps s. (Inl (OtherStoreError ''unavailable''), s)),
      register_type_if_not_exist = (\<lambda>t s. (Inl (OtherStoreError ''unavailable''), s))\<rparr>"

section \<open>\<^verbatim>\<open>python_execution_lib.py\<close>\<close>

text \<open>
  An executable spec is one of the two messages of \<^verbatim>\<open>executable_spec_pb2\<close>; the Beam
  spec wraps a Python class spec (of which only the class path is read here) and carries
  pipeline arguments. Of the execution info only \<^verbatim>\<open>execution_output_uri\<close> is read.
  A proto message returned by a run is represented by the bytes that
  \<^verbatim>\<open>SerializeToString\<close> yields for it. A proto message object is always true in a
  Python condition, so \<^verbatim>\<open>if run_result:\<close> tests for \<^verbatim>\<open>None\<close>.
\<close>

datatype executable_spec =
    PythonClassExecutableSpec (class_path: string)
  | BeamExecutableSpec (python_executor_spec_class_path: string) (beam_pipeline_args: "string list")

record execution_info =
  execution_output_uri :: string

datatype run_result = DriverOutput string | ExecutionResult string

fun SerializeToString :: "run_result \<Rightarrow> string" where
  "SerializeToString (DriverOutput bytes) = bytes"
| "SerializeToString (ExecutionResult bytes) = bytes"

text \<open>
  The collaborators of the dispatch layer, as functions over an arbitrary state \<open>'f\<close> of
  the process and its files: the value of the flag
  \<^verbatim>\<open>tfx_mlmd_connection_config_b64\<close>, the import of a class by its path, the
  deserialisation of the connection config, the driver operator (constructed with a
  \<^verbatim>\<open>metadata.Metadata\<close> for the connection config), the executor dispatcher, and the
  write of a whole file. Each may fail. The effects performed are logged, oldest first.
\<close>

record 'f execution_env =
  MLMD_CONNECTION_CONFIG_FLAG :: "string option"
  import_class_by_path :: "string \<Rightarrow> 'f \<Rightarrow> (error + unit) \<times> 'f"
  deserialize_mlmd_connection_config :: "string \<Rightarrow> error + string"
  driver_operator_run_driver ::
    "executable_spec \<Rightarrow> string \<Rightarrow> execution_info \<Rightarrow> 'f \<Rightarrow> (error + string) \<times> 'f"
  dispatcher_run_executor ::
    "executable_spec \<Rightarrow> execution_info \<Rightarrow> 'f \<Rightarrow> (error + string option) \<times> 'f"
  fileio_write :: "string \<Rightarrow> string \<Rightarrow> 'f \<Rightarrow> (error + unit) \<times> 'f"

datatype effect =
    ImportClassByPath string
  | RunDriver executable_spec string execution_info
  | RunExecutor executable_spec execution_info
  | FileWrite string string

record 'f process =
  process_state :: 'f
  effects :: "effect list"

definition perform_effect ::
  "effect \<Rightarrow> ('f \<Rightarrow> (error + 'a) \<times> 'f) \<Rightarrow> 'f process \<Rightarrow> (error + 'a) \<times> 'f process" where
  "perform_effect e f w =
     (case f (process_state w) of
        (r, s') \<Rightarrow> (r, \<lparr>process_state = s', effects = effects w @ [e]\<rparr>))"

text \<open>The class path that \<^verbatim>\<open>_import_class_path\<close> reads from either kind of spec.\<close>

definition spec_class_path :: "executable_spec \<Rightarrow> string" where
  "spec_class_path executable_spec =
     (case executable_spec of
        BeamExecutableSpec path args \<Rightarrow> path
      | PythonClassExecutableSpec path \<Rightarrow> path)"

definition import_class_path ::
  "'f execution_env \<Rightarrow> executable_spec \<Rightarrow> 'f process \<Rightarrow> (error + unit) \<times> 'f process" where
  "import_class_path env executable_spec w =
     (case executable_spec of
        BeamExecutableSpec path args \<Rightarrow>
          perform_effect (ImportClassByPath path) (import_class_by_path env path) w
      | PythonClassExecutableSpec path \<Rightarrow>
          perform_effect (ImportClassByPath path) (import_class_by_path env path) w)"

definition run_driver ::
  "'f execution_env \<Rightarrow> executable_spec \<Rightarrow> string \<Rightarrow> execution_info \<Rightarrow> 'f process
     \<Rightarrow> (error + run_result) \<times> 'f process" where
  "run_driver env executable_spec mlmd_connection_config execution_info w =
     (case perform_effect (RunDriver executable_spec mlmd_connection_config execution_info)
             (driver_operator_run_driver env executable_spec mlmd_connection_config
                execution_info) w of
        (Inl e, w') \<Rightarrow> (Inl e, w')
      | (Inr output, w') \<Rightarrow> (Inr (DriverOutput output), w'))"

definition run_executor ::
  "'f execution_env \<Rightarrow> executable_spec \<Rightarrow> execution_info \<Rightarrow> 'f process
     \<Rightarrow> (error + run_result option) \<times> 'f process" where
  "run_executor env executable_spec execution_info w =
     (case perform_effect (RunExecutor executable_spec execution_info)
             (dispatcher_run_executor env executable_spec execution_info) w of
        (Inl e, w') \<Rightarrow> (Inl e, w')
      | (Inr None, w') \<Rightarrow> (Inr None, w')
      | (Inr (Some res), w') \<Rightarrow> (Inr (Some (ExecutionResult res)), w'))"

text \<open>
  Lines 75 to 84. The flag value is true in the condition when it is set and not the
  empty string.
\<close>

definition run_driver_or_executor ::
  "'f execution_env \<Rightarrow> executable_spec \<Rightarrow> execution_info \<Rightarrow> 'f process
     \<Rightarrow> (error + run_result option) \<times> 'f process" where
  "run_driver_or_executor env executable_spec execution_info w =
     (case MLMD_CONNECTION_CONFIG_FLAG env of
        None \<Rightarrow> run_executor env executable_spec execution_info w
      | Some [] \<Rightarrow> run_executor env executable_spec execution_info w
      | Some flag_value \<Rightarrow>
          (case deserialize_mlmd_connection_config env flag_value of
             Inl e \<Rightarrow> (Inl e, w)
           | Inr mlmd_connection_config \<Rightarrow>
               (case run_driver env executable_spec mlmd_connection_config execution_info w of
                  (Inl e, w') \<Rightarrow> (Inl e, w')
                | (Inr output, w') \<Rightarrow> (Inr (Some output), w'))))"

definition run_python_custom_component ::
  "'f execution_env \<Rightarrow> executable_spec \<Rightarrow> execution_info \<Rightarrow> 'f process
     \<Rightarrow> (error + unit) \<times> 'f process" where
  "run_python_custom_component env executable_spec execution_info w =
     (case import_class_path env executable_spec w of
        (Inl e, w1) \<Rightarrow> (Inl e, w1)
      | (Inr u, w1) \<Rightarrow>
          (case run_driver_or_executor env executable_spec execution_info w1 of
             (Inl e, w2) \<Rightarrow> (Inl e, w2)
           | (Inr None, w2) \<Rightarrow> (Inr (), w2)
           | (Inr (Some run_result), w2) \<Rightarrow>
               perform_effect
                 (FileWrite (execution_output_uri execution_info)
                    (SerializeToString run_result))
                 (fileio_write env (execution_output_uri execution_info)
                    (SerializeToString run_result)) w2))"

definition run ::
  "'f execution_env \<Rightarrow> executable_spec \<Rightarrow> execution_info \<Rightarrow> 'f process
     \<Rightarrow> (error + unit) \<times> 'f process" where
  "run env executable_spec execution_info w =
     run_python_custom_component env executable_spec execution_info w"

section \<open>What a caller may expect of a store when no other writer interferes\<close>

text \<open>
  Two properties of a store, for a caller whose calls are not interleaved with another
  writer's. A lookup that found a context finds a context with the same id when it is
  repeated. A context inserted under the type that the registrar returned for a type
  descriptor is found afterwards under that descriptor's type name and its own name, with
  the id the insert returned.
\<close>

definition lookup_is_stable :: "'s metadata_handler \<Rightarrow> bool" where
  "lookup_is_stable h =
     (\<forall>type_name n s c s'.
        get_context_by_type_and_name h type_name n s = (Inr (Some c), s') \<longrightarrow>
        (\<exists>c' s''. get_context_by_type_and_name h type_name n s' = (Inr (Some c'), s'') \<and>
                   c_id c' = c_id c))"

definition insert_is_visible :: "'s metadata_handler \<Rightarrow> bool" where
  "insert_is_visible h =
     (\<forall>t s registered s1 c i s2.
        register_type_if_not_exist h t s = (Inr registered, s1) \<and>
        c_type_id c = ct_id registered \<and>
        put_contexts h [c] s1 = (Inr [i], s2) \<longrightarrow>
        (\<exists>c' s3. get_context_by_type_and_name h (ct_name t) (StringValue (c_name c)) s2
                     = (Inr (Some c'), s3) \<and>
                  c_id c' = i))"

section \<open>Example data\<close>

text \<open>
  A store that holds the two distinguished types and one pipeline context; a spec for a
  pipeline run with one declared and one undeclared property; and the row a concurrent
  writer inserts for the same type and name.
\<close>

definition ex_pipeline :: mlmd_context where
  "ex_pipeline =
     \<lparr>c_id = 1, c_type_id = 1, c_name = ''p1'', c_properties = [], c_custom_properties = []\<rparr>"

definition ex_run_type :: context_type where
  "ex_run_type = \<lparr>ct_id = 0, ct_name = ''pipeline_run'', ct_properties = [(''n'', PT_INT)]\<rparr>"

definition ex_store :: mem_store where
  "ex_store =
     \<lparr>ms_types =
        [\<lparr>ct_id = 1, ct_name = ''pipeline'', ct_properties = []\<rparr>,
         \<lparr>ct_id = 2, ct_name = ''pipeline_run'', ct_properties = [(''n'', PT_INT)]\<rparr>],
      ms_contexts = [ex_pipeline],
      ms_parent_contexts = []\<rparr>"

definition ex_run_spec :: context_spec where
  "ex_run_spec =
     \<lparr>spec_type = ex_run_type,
      spec_name = Value (StringValue ''r1''),
      spec_properties = [(''n'', Value (IntValue 3)), (''x'', Value (StringValue ''y''))]\<rparr>"

definition ex_rival :: mlmd_context where
  "ex_rival =
     \<lparr>c_id = 0, c_type_id = 2, c_name = ''r1'', c_properties = [], c_custom_properties = []\<rparr>"

definition ex_spec :: "string \<Rightarrow> string \<Rightarrow> context_spec" where
  "ex_spec type_name n =
     \<lparr>spec_type = \<lparr>ct_id = 0, ct_name = type_name, ct_properties = []\<rparr>,
      spec_name = Value (StringValue n),
      spec_properties = []\<rparr>"

definition ex_race_world :: "(mem_store \<times> mlmd_context list) world" where
  "ex_race_world = \<lparr>store = (ex_store, [ex_rival]), calls = []\<rparr>"

definition ex_lag_world :: "(mem_store \<times> mem_store) world" where
  "ex_lag_world =
     \<lparr>store = (ex_store, ex_store\<lparr>ms_contexts := [ex_pipeline, ex_rival\<lparr>c_id := 2\<rparr>]\<rparr>),
      calls = []\<rparr>"

text \<open>The run spec again, with a string where the schema declares an integer.\<close>

definition ex_bad_spec :: context_spec where
  "ex_bad_spec =
     ex_run_spec\<lparr>spec_properties :=
       [(''x'', Value (StringValue ''y'')), (''n'', Value (StringValue ''three''))]\<rparr>"

text \<open>Batches for an empty store, with specs that carry a type name and a name only.\<close>

definition ex_empty_world :: "mem_store world" where
  "ex_empty_world = \<lparr>store = empty_store, calls = []\<rparr>"

definition ex_batch :: node_contexts where
  "ex_batch =
     \<lparr>contexts = [ex_spec ''pipeline'' ''p1'', ex_spec ''pipeline_run'' ''r1'',
                  ex_spec ''other'' ''o1'']\<rparr>"

definition ex_batch_pipeline_last :: node_contexts where
  "ex_batch_pipeline_last =
     \<lparr>contexts = [ex_spec ''pipeline_run'' ''r1'', ex_spec ''other'' ''o1'',
                  ex_spec ''pipeline'' ''p1'']\<rparr>"

definition ex_batch_two_pipelines :: node_contexts where
  "ex_batch_two_pipelines =
     \<lparr>contexts = [ex_spec ''pipeline'' ''p1'', ex_spec ''pipeline'' ''p2'',
                  ex_spec ''pipeline_run'' ''r1'']\<rparr>"

text \<open>
  Two environments for the dispatch layer. The process state is the list of files
  written. In the first the connection config flag is set and the driver returns an
  output; in the second the flag is not set and the executor returns a result.
\<close>

definition ex_driver_env :: "(string \<times> string) list execution_env" where
  "ex_driver_env =
     \<lparr>MLMD_CONNECTION_CONFIG_FLAG = Some ''Y29uZmln'',
      import_class_by_path = (\<lambda>path files. (Inr (), files)),
      deserialize_mlmd_connection_config = (\<lambda>b64. Inr (''config:'' @ b64)),
      driver_operator_run_driver = (\<lambda>spec config info files. (Inr ''driver output'', files)),
      dispatcher_run_executor = (\<lambda>spec info files. (Inr None, files)),
      fileio_write = (\<lambda>uri bytes files. (Inr (), files @ [(uri, bytes)]))\<rparr>"

definition ex_executor_env :: "(string \<times> string) list execution_env" where
  "ex_executor_env =
     ex_driver_env
       \<lparr>MLMD_CONNECTION_CONFIG_FLAG := None,
        dispatcher_run_executor := (\<lambda>spec info files. (Inr (Some ''execution result''), files))\<rparr>"

definition ex_process :: "(string \<times> string) list process" where
  "ex_process = \<lparr>process_state = [], effects = []\<rparr>"

section \<open>Properties\<close>

subsection \<open>Store calls and the log\<close>

lemma perform_eq:
  "f (store w) = (r, s') \<Longrightarrow> perform c f w = (r, \<lparr>store = s', calls = calls w @ [c]\<rparr>)"
  by (simp add: perform_def)

subsection \<open>The fast path of \<^verbatim>\<open>_register_context_if_not_exist\<close>\<close>

text \<open>
  Claim C2. When the store's lookup by the spec's type name and context name finds a
  context, \<^verbatim>\<open>_register_context_if_not_exist\<close> returns that context, whatever the
  parent list is. The lookup is the only call made to the store (no type registration, no
  context insert, no parent edge insert), and the store is left as the lookup left it.
\<close>

theorem register_existing_context_only_looks_up:
  assumes "get_context_by_type_and_name h (ct_name (spec_type spec))
             (get_value (spec_name spec)) (store w) = (Inr (Some existing), s')"
  shows "register_context_if_not_exist h spec parents w =
           (Inr existing,
            \<lparr>store = s',
             calls = calls w @
               [GetContextByTypeAndName (ct_name (spec_type spec))
                  (get_value (spec_name spec))]\<rparr>)"
  using assms
  by (simp add: register_context_if_not_exist_def store_get_context_by_type_and_name_def
      perform_eq)

theorem register_existing_context_only_looks_up_witness:
  "register_context_if_not_exist mem_handler (ex_spec ''pipeline'' ''p1'') (Some [ex_pipeline])
     \<lparr>store = ex_store, calls = []\<rparr> =
   (Inr ex_pipeline,
    \<lparr>store = ex_store, calls = [GetContextByTypeAndName ''pipeline'' (StringValue ''p1'')]\<rparr>)"
proof -
  have "get_context_by_type_and_name mem_handler
          (ct_name (spec_type (ex_spec ''pipeline'' ''p1'')))
          (get_value (spec_name (ex_spec ''pipeline'' ''p1'')))
          (store \<lparr>store = ex_store, calls = []\<rparr>) = (Inr (Some ex_pipeline), ex_store)"
    by code_simp
  from register_existing_context_only_looks_up [OF this, of "Some [ex_pipeline]"]
  show ?thesis
    by (simp add: ex_spec_def get_value_def)
qed

subsection \<open>The public wrapper\<close>

text \<open>
  Claim C10. \<^verbatim>\<open>register_context_if_not_exists\<close> gives the result and the store
  that \<^verbatim>\<open>_register_context_if_not_exist\<close> gives for the spec whose type carries the
  type name (and nothing else) and whose name field holds the string, with the same
  parent list.
\<close>

theorem register_context_if_not_exists_is_wrapper:
  "register_context_if_not_exists h context_type_name context_name parent_contexts w =
     register_context_if_not_exist h
       \<lparr>spec_type = \<lparr>ct_id = 0, ct_name = context_type_name, ct_properties = []\<rparr>,
        spec_name = Value (StringValue context_name),
        spec_properties = []\<rparr>
       parent_contexts w"
  by (simp add: register_context_if_not_exists_def)

subsection \<open>The edge registrar and the loop over the parents\<close>

lemma put_parent_context_if_not_exists_eq:
  "put_parent_contexts h [\<lparr>parent_id = p, child_id = c\<rparr>] (store w) = (r, s') \<Longrightarrow>
   put_parent_context_if_not_exists h p c w =
     ((case r of Inl AlreadyExistsError \<Rightarrow> Inr () | Inl e \<Rightarrow> Inl e | Inr u \<Rightarrow> Inr ()),
      \<lparr>store = s', calls = calls w @ [PutParentContexts [\<lparr>parent_id = p, child_id = c\<rparr>]]\<rparr>)"
  by (simp add: put_parent_context_if_not_exists_def store_put_parent_contexts_def perform_eq
      split: sum.splits error.splits)

lemma put_parent_context_if_not_exists_calls:
  "calls (snd (put_parent_context_if_not_exists h p c w)) =
     calls w @ [PutParentContexts [\<lparr>parent_id = p, child_id = c\<rparr>]]"
  by (cases "put_parent_contexts h [\<lparr>parent_id = p, child_id = c\<rparr>] (store w)")
    (simp add: put_parent_context_if_not_exists_eq)

lemma put_parent_context_if_not_exists_not_already_exists:
  "fst (put_parent_context_if_not_exists h p c w) \<noteq> Inl AlreadyExistsError"
  by (cases "put_parent_contexts h [\<lparr>parent_id = p, child_id = c\<rparr>] (store w)")
    (simp add: put_parent_context_if_not_exists_eq split: sum.splits error.splits)

lemma put_parent_contexts_loop_calls:
  "put_parent_contexts_loop h ps child w = (Inr u, w') \<Longrightarrow>
   calls w' = calls w @ map (\<lambda>p. PutParentContexts [\<lparr>parent_id = c_id p, child_id = child\<rparr>]) ps"
proof (induction ps arbitrary: w)
  case Nil
  then show ?case by simp
next
  case (Cons p ps)
  obtain r w1 where step: "put_parent_context_if_not_exists h (c_id p) child w = (r, w1)"
    by (cases "put_parent_context_if_not_exists h (c_id p) child w")
  with Cons.prems obtain u1 where r: "r = Inr u1" and rest: "put_parent_contexts_loop h ps child w1 = (Inr u, w')"
    by (cases r) auto
  have "calls w1 = calls w @ [PutParentContexts [\<lparr>parent_id = c_id p, child_id = child\<rparr>]]"
    using put_parent_context_if_not_exists_calls [of h "c_id p" child w] step by simp
  with Cons.IH [OF rest] show ?case by simp
qed

lemma put_parent_contexts_loop_first_call:
  "\<exists>more. calls (snd (put_parent_contexts_loop h (p # ps) child w)) =
     calls w @ PutParentContexts [\<lparr>parent_id = c_id p, child_id = child\<rparr>] # more"
proof -
  have prefix: "\<exists>more. calls (snd (put_parent_contexts_loop h qs child v)) = calls v @ more" for qs v
  proof (induction qs arbitrary: v)
    case Nil
    then show ?case by simp
  next
    case (Cons q qs)
    obtain r v1 where step: "put_parent_context_if_not_exists h (c_id q) child v = (r, v1)"
      by (cases "put_parent_context_if_not_exists h (c_id q) child v")
    have c1: "calls v1 = calls v @ [PutParentContexts [\<lparr>parent_id = c_id q, child_id = child\<rparr>]]"
      using put_parent_context_if_not_exists_calls [of h "c_id q" child v] step by simp
    show ?case
    proof (cases r)
      case (Inl e)
      with step c1 show ?thesis by simp
    next
      case (Inr u)
      from Cons.IH [of v1] obtain more where "calls (snd (put_parent_contexts_loop h qs child v1)) = calls v1 @ more" ..
      with Inr step c1 show ?thesis by simp
    qed
  qed
  obtain r w1 where step: "put_parent_context_if_not_exists h (c_id p) child w = (r, w1)"
    by (cases "put_parent_context_if_not_exists h (c_id p) child w")
  have c1: "calls w1 = calls w @ [PutParentContexts [\<lparr>parent_id = c_id p, child_id = child\<rparr>]]"
    using put_parent_context_if_not_exists_calls [of h "c_id p" child w] step by simp
  show ?thesis
  proof (cases r)
    case (Inl e)
    with step c1 show ?thesis by simp
  next
    case (Inr u)
    from prefix [of ps w1] obtain more where "calls (snd (put_parent_contexts_loop h ps child w1)) = calls w1 @ more" ..
    with Inr step c1 show ?thesis by simp
  qed
qed

lemma put_parent_contexts_loop_not_already_exists:
  "fst (put_parent_contexts_loop h ps child w) \<noteq> Inl AlreadyExistsError"
proof (induction ps arbitrary: w)
  case Nil
  then show ?case by simp
next
  case (Cons p ps)
  obtain r w1 where step: "put_parent_context_if_not_exists h (c_id p) child w = (r, w1)"
    by (cases "put_parent_context_if_not_exists h (c_id p) child w")
  have "r \<noteq> Inl AlreadyExistsError"
    using put_parent_context_if_not_exists_not_already_exists [of h "c_id p" child w] step by simp
  with step Cons.IH [of w1] show ?case by (cases r) auto
qed

subsection \<open>The insert conflict\<close>

lemma link_parents_and_return_eq:
  "link_parents_and_return h parent_contexts c w =
     (case put_parent_contexts_loop h (case parent_contexts of None \<Rightarrow> [] | Some ps \<Rightarrow> ps) (c_id c) w of
        (Inl e, w') \<Rightarrow> (Inl e, w')
      | (Inr u, w') \<Rightarrow> (Inr c, w'))"
  by (simp add: link_parents_and_return_def split: option.splits list.splits)

lemma register_conflict_eq:
  assumes lookup: "store_get_context_by_type_and_name h (ct_name (spec_type spec))
             (get_value (spec_name spec)) w = (Inr None, w1)"
    and gen: "generate_context_proto h spec w1 = (Inr ctx, w2)"
    and conflict: "store_put_contexts h [ctx] w2 = (Inl AlreadyExistsError, w3)"
    and reread: "store_get_context_by_type_and_name h (ct_name (spec_type spec))
             (get_value (spec_name spec)) w3 = (r, w4)"
  shows "register_context_if_not_exist h spec parents w =
     (case r of
        Inl e \<Rightarrow> (Inl e, w4)
      | Inr None \<Rightarrow> (Inl (AssertionError (''Context is missing for '' @ c_name ctx
                     @ '' while put_contexts reports that it existed.'')), w4)
      | Inr (Some existing) \<Rightarrow> link_parents_and_return h parents existing w4)"
  using assms
  by (simp add: register_context_if_not_exist_def put_context_or_reread_def
      split: sum.splits option.splits)

text \<open>
  Claim C3. Suppose the first lookup finds nothing, the context is built, and the insert
  raises \<^verbatim>\<open>AlreadyExistsError\<close>. If the second lookup finds a context, that context
  is what the call returns: with no parents (\<^verbatim>\<open>None\<close> or the empty list) the call
  returns it at once, with any parent list a returned context is this one, and the call
  never fails with \<^verbatim>\<open>AlreadyExistsError\<close>. If the second lookup finds nothing, the
  call fails with the \<^verbatim>\<open>AssertionError\<close> of line 109, and after building the
  context the log holds one insert and one lookup: the insert is not tried again.
\<close>

theorem register_conflict_rereads:
  assumes lookup: "store_get_context_by_type_and_name h (ct_name (spec_type spec))
             (get_value (spec_name spec)) w = (Inr None, w1)"
    and gen: "generate_context_proto h spec w1 = (Inr ctx, w2)"
    and conflict: "store_put_contexts h [ctx] w2 = (Inl AlreadyExistsError, w3)"
  shows "(\<forall>existing w4.
            store_get_context_by_type_and_name h (ct_name (spec_type spec))
              (get_value (spec_name spec)) w3 = (Inr (Some existing), w4) \<longrightarrow>
            register_context_if_not_exist h spec None w = (Inr existing, w4) \<and>
            register_context_if_not_exist h spec (Some []) w = (Inr existing, w4) \<and>
            (\<forall>parents. fst (register_context_if_not_exist h spec parents w)
                         \<noteq> Inl AlreadyExistsError) \<and>
            (\<forall>parents c w'. register_context_if_not_exist h spec parents w = (Inr c, w')
                         \<longrightarrow> c = existing)) \<and>
         (\<forall>w4.
            store_get_context_by_type_and_name h (ct_name (spec_type spec))
              (get_value (spec_name spec)) w3 = (Inr None, w4) \<longrightarrow>
            (\<forall>parents. register_context_if_not_exist h spec parents w =
               (Inl (AssertionError (''Context is missing for '' @ c_name ctx
                       @ '' while put_contexts reports that it existed.'')), w4)) \<and>
            calls w4 = calls w2 @
              [PutContexts [ctx],
               GetContextByTypeAndName (ct_name (spec_type spec)) (get_value (spec_name spec))])"
proof (intro conjI allI impI)
  fix existing w4
  assume reread: "store_get_context_by_type_and_name h (ct_name (spec_type spec))
              (get_value (spec_name spec)) w3 = (Inr (Some existing), w4)"
  note eq = register_conflict_eq [OF lookup gen conflict reread]
  show "register_context_if_not_exist h spec None w = (Inr existing, w4)"
    by (simp add: eq link_parents_and_return_def)
  show "register_context_if_not_exist h spec (Some []) w = (Inr existing, w4)"
    by (simp add: eq link_parents_and_return_def)
  show "fst (register_context_if_not_exist h spec parents w) \<noteq> Inl AlreadyExistsError"
    for parents
    using put_parent_contexts_loop_not_already_exists
      [of h "case parents of None \<Rightarrow> [] | Some ps \<Rightarrow> ps" "c_id existing" w4]
    by (auto simp: eq link_parents_and_return_eq split: prod.splits sum.splits)
  show "c = existing" if "register_context_if_not_exist h spec parents w = (Inr c, w')"
    for parents c w'
    using that by (simp add: eq link_parents_and_return_eq split: prod.splits sum.splits)
next
  fix w4
  assume reread: "store_get_context_by_type_and_name h (ct_name (spec_type spec))
              (get_value (spec_name spec)) w3 = (Inr None, w4)"
  note eq = register_conflict_eq [OF lookup gen conflict reread]
  show "register_context_if_not_exist h spec parents w =
          (Inl (AssertionError (''Context is missing for '' @ c_name ctx
                  @ '' while put_contexts reports that it existed.'')), w4)" for parents
    by (simp add: eq)
  have "calls w3 = calls w2 @ [PutContexts [ctx]]"
    using conflict by (auto simp: store_put_contexts_def perform_def split: prod.splits)
  moreover have "calls w4 = calls w3 @
      [GetContextByTypeAndName (ct_name (spec_type spec)) (get_value (spec_name spec))]"
    using reread
    by (auto simp: store_get_context_by_type_and_name_def perform_def split: prod.splits)
  ultimately show "calls w4 = calls w2 @
      [PutContexts [ctx],
       GetContextByTypeAndName (ct_name (spec_type spec)) (get_value (spec_name spec))]"
    by simp
qed

theorem register_conflict_rereads_witness:
  "fst (store_get_context_by_type_and_name racing_handler ''pipeline_run'' (StringValue ''r1'')
          ex_race_world) = Inr None \<and>
   fst (register_context_if_not_exist racing_handler ex_run_spec None ex_race_world) =
     Inr (ex_rival\<lparr>c_id := 2\<rparr>) \<and>
   fst (store_get_context_by_type_and_name lagging_handler ''pipeline_run'' (StringValue ''r1'')
          ex_lag_world) = Inr None \<and>
   fst (register_context_if_not_exist lagging_handler ex_run_spec (Some [ex_pipeline])
          ex_lag_world) =
     Inl (AssertionError ''Context is missing for r1 while put_contexts reports that it existed.'')"
proof -
  let ?tn = "ct_name (spec_type ex_run_spec)" and ?n = "get_value (spec_name ex_run_spec)"
  let ?w1 = "snd (store_get_context_by_type_and_name racing_handler ?tn ?n ex_race_world)"
  let ?ctx = "\<lparr>c_id = 0, c_type_id = 2, c_name = ''r1'', c_properties = [(''n'', IntValue 3)],
               c_custom_properties = [(''x'', StringValue ''y'')]\<rparr>"
  let ?w2 = "snd (generate_context_proto racing_handler ex_run_spec ?w1)"
  let ?w3 = "snd (store_put_contexts racing_handler [?ctx] ?w2)"
  let ?w4 = "snd (store_get_context_by_type_and_name racing_handler ?tn ?n ?w3)"
  have lookup: "store_get_context_by_type_and_name racing_handler ?tn ?n ex_race_world
                  = (Inr None, ?w1)"
    by code_simp
  have gen: "generate_context_proto racing_handler ex_run_spec ?w1 = (Inr ?ctx, ?w2)"
    by code_simp
  have conflict: "store_put_contexts racing_handler [?ctx] ?w2 = (Inl AlreadyExistsError, ?w3)"
    by code_simp
  have reread: "store_get_context_by_type_and_name racing_handler ?tn ?n ?w3
                  = (Inr (Some (ex_rival\<lparr>c_id := 2\<rparr>)), ?w4)"
    by code_simp
  let ?v1 = "snd (store_get_context_by_type_and_name lagging_handler ?tn ?n ex_lag_world)"
  let ?v2 = "snd (generate_context_proto lagging_handler ex_run_spec ?v1)"
  let ?v3 = "snd (store_put_contexts lagging_handler [?ctx] ?v2)"
  let ?v4 = "snd (store_get_context_by_type_and_name lagging_handler ?tn ?n ?v3)"
  have lookup': "store_get_context_by_type_and_name lagging_handler ?tn ?n ex_lag_world
                  = (Inr None, ?v1)"
    by code_simp
  have gen': "generate_context_proto lagging_handler ex_run_spec ?v1 = (Inr ?ctx, ?v2)"
    by code_simp
  have conflict': "store_put_contexts lagging_handler [?ctx] ?v2 = (Inl AlreadyExistsError, ?v3)"
    by code_simp
  have reread': "store_get_context_by_type_and_name lagging_handler ?tn ?n ?v3 = (Inr None, ?v4)"
    by code_simp
  have f1: "fst (store_get_context_by_type_and_name racing_handler ''pipeline_run''
                  (StringValue ''r1'') ex_race_world) = Inr None"
    by code_simp
  have f2: "fst (store_get_context_by_type_and_name lagging_handler ''pipeline_run''
                  (StringValue ''r1'') ex_lag_world) = Inr None"
    by code_simp
  from register_conflict_rereads [OF lookup gen conflict] reread
  have "register_context_if_not_exist racing_handler ex_run_spec None ex_race_world
          = (Inr (ex_rival\<lparr>c_id := 2\<rparr>), ?w4)"
    by blast
  then have a: "fst (register_context_if_not_exist racing_handler ex_run_spec None ex_race_world)
          = Inr (ex_rival\<lparr>c_id := 2\<rparr>)"
    by simp
  from register_conflict_rereads [OF lookup' gen' conflict'] reread'
  have "register_context_if_not_exist lagging_handler ex_run_spec (Some [ex_pipeline])
          ex_lag_world =
        (Inl (AssertionError (''Context is missing for '' @ c_name ?ctx
                 @ '' while put_contexts reports that it existed.'')), ?v4)"
    by blast
  then have b: "fst (register_context_if_not_exist lagging_handler ex_run_spec
                       (Some [ex_pipeline]) ex_lag_world) =
     Inl (AssertionError ''Context is missing for r1 while put_contexts reports that it existed.'')"
    by simp
  from f1 a f2 b show ?thesis
    by blast
qed

subsection \<open>Parent edges after an insert conflict\<close>

text \<open>
  Claim C1 says that no parent edge is established when the insert raised
  \<^verbatim>\<open>AlreadyExistsError\<close>. The code joins the two branches of the \<^verbatim>\<open>try\<close>
  statement before line 115, so the loop over the parents runs after a conflict as well.
  In the run below a concurrent writer inserts the run context between the caller's
  lookup and the caller's insert: the lookup finds nothing, the insert of the context
  built raises \<^verbatim>\<open>AlreadyExistsError\<close>, and the caller then inserts the edge from
  the pipeline context 1 to the context 2 it read again.
\<close>

theorem register_conflict_no_edges_counterexample:
  "fst (store_get_context_by_type_and_name racing_handler ''pipeline_run'' (StringValue ''r1'')
          ex_race_world) = Inr None \<and>
   fst (generate_context_proto racing_handler ex_run_spec
          (snd (store_get_context_by_type_and_name racing_handler ''pipeline_run''
                  (StringValue ''r1'') ex_race_world))) =
     Inr \<lparr>c_id = 0, c_type_id = 2, c_name = ''r1'', c_properties = [(''n'', IntValue 3)],
          c_custom_properties = [(''x'', StringValue ''y'')]\<rparr> \<and>
   fst (store_put_contexts racing_handler
          [\<lparr>c_id = 0, c_type_id = 2, c_name = ''r1'', c_properties = [(''n'', IntValue 3)],
            c_custom_properties = [(''x'', StringValue ''y'')]\<rparr>]
          (snd (generate_context_proto racing_handler ex_run_spec
                  (snd (store_get_context_by_type_and_name racing_handler ''pipeline_run''
                          (StringValue ''r1'') ex_race_world))))) =
     Inl AlreadyExistsError \<and>
   fst (register_context_if_not_exist racing_handler ex_run_spec (Some [ex_pipeline])
          ex_race_world) = Inr (ex_rival\<lparr>c_id := 2\<rparr>) \<and>
   calls (snd (register_context_if_not_exist racing_handler ex_run_spec (Some [ex_pipeline])
                 ex_race_world)) =
     [GetContextByTypeAndName ''pipeline_run'' (StringValue ''r1''),
      RegisterTypeIfNotExist ex_run_type,
      PutContexts
        [\<lparr>c_id = 0, c_type_id = 2, c_name = ''r1'', c_properties = [(''n'', IntValue 3)],
          c_custom_properties = [(''x'', StringValue ''y'')]\<rparr>],
      GetContextByTypeAndName ''pipeline_run'' (StringValue ''r1''),
      PutParentContexts [\<lparr>parent_id = 1, child_id = 2\<rparr>]] \<and>
   ms_parent_contexts
     (fst (store (snd (register_context_if_not_exist racing_handler ex_run_spec
                         (Some [ex_pipeline]) ex_race_world)))) =
     [\<lparr>parent_id = 1, child_id = 2\<rparr>]"
  by code_simp

text \<open>
  Claim C1, amended. Suppose the first lookup finds nothing, the context is built, the
  insert raises \<^verbatim>\<open>AlreadyExistsError\<close> and the second lookup finds a context. Then
  the edge registrar is called for the parents in order, with the context read again as
  the child: the insert of the first parent's edge is always attempted, and when the call
  returns, the calls made after the second lookup are one edge insert for every parent.
\<close>

theorem register_conflict_links_parents:
  assumes lookup: "store_get_context_by_type_and_name h (ct_name (spec_type spec))
             (get_value (spec_name spec)) w = (Inr None, w1)"
    and gen: "generate_context_proto h spec w1 = (Inr ctx, w2)"
    and conflict: "store_put_contexts h [ctx] w2 = (Inl AlreadyExistsError, w3)"
    and reread: "store_get_context_by_type_and_name h (ct_name (spec_type spec))
             (get_value (spec_name spec)) w3 = (Inr (Some existing), w4)"
  shows "(\<forall>p rest. parents = p # rest \<longrightarrow>
            (\<exists>more. calls (snd (register_context_if_not_exist h spec (Some parents) w)) =
               calls w4 @ PutParentContexts [\<lparr>parent_id = c_id p, child_id = c_id existing\<rparr>]
                 # more)) \<and>
         (\<forall>c w'. register_context_if_not_exist h spec (Some parents) w = (Inr c, w') \<longrightarrow>
            calls w' = calls w4 @
              map (\<lambda>p. PutParentContexts [\<lparr>parent_id = c_id p, child_id = c_id existing\<rparr>])
                parents)"
proof (intro conjI allI impI)
  note eq = register_conflict_eq [OF lookup gen conflict reread, of "Some parents"]
  fix p rest
  assume "parents = p # rest"
  have "snd (register_context_if_not_exist h spec (Some parents) w) =
          snd (put_parent_contexts_loop h parents (c_id existing) w4)"
    by (simp add: eq link_parents_and_return_eq split: prod.splits sum.splits)
  with \<open>parents = p # rest\<close>
  show "\<exists>more. calls (snd (register_context_if_not_exist h spec (Some parents) w)) =
               calls w4 @ PutParentContexts [\<lparr>parent_id = c_id p, child_id = c_id existing\<rparr>]
                 # more"
    using put_parent_contexts_loop_first_call [of h p rest "c_id existing" w4]
    by (simp del: put_parent_contexts_loop.simps)
next
  note eq = register_conflict_eq [OF lookup gen conflict reread, of "Some parents"]
  fix c w'
  assume "register_context_if_not_exist h spec (Some parents) w = (Inr c, w')"
  then obtain u where "put_parent_contexts_loop h parents (c_id existing) w4 = (Inr u, w')"
    by (auto simp: eq link_parents_and_return_eq split: prod.splits sum.splits)
  then show "calls w' = calls w4 @
      map (\<lambda>p. PutParentContexts [\<lparr>parent_id = c_id p, child_id = c_id existing\<rparr>]) parents"
    by (rule put_parent_contexts_loop_calls)
qed

theorem register_conflict_links_parents_witness:
  "fst (store_get_context_by_type_and_name racing_handler ''pipeline_run'' (StringValue ''r1'')
          ex_race_world) = Inr None \<and>
   calls (snd (register_context_if_not_exist racing_handler ex_run_spec (Some [ex_pipeline])
                 ex_race_world)) =
     [GetContextByTypeAndName ''pipeline_run'' (StringValue ''r1''),
      RegisterTypeIfNotExist ex_run_type,
      PutContexts
        [\<lparr>c_id = 0, c_type_id = 2, c_name = ''r1'', c_properties = [(''n'', IntValue 3)],
          c_custom_properties = [(''x'', StringValue ''y'')]\<rparr>],
      GetContextByTypeAndName ''pipeline_run'' (StringValue ''r1'')] @
     map (\<lambda>p. PutParentContexts [\<lparr>parent_id = c_id p, child_id = 2\<rparr>]) [ex_pipeline]"
proof -
  let ?tn = "ct_name (spec_type ex_run_spec)" and ?n = "get_value (spec_name ex_run_spec)"
  let ?w1 = "snd (store_get_context_by_type_and_name racing_handler ?tn ?n ex_race_world)"
  let ?ctx = "\<lparr>c_id = 0, c_type_id = 2, c_name = ''r1'', c_properties = [(''n'', IntValue 3)],
               c_custom_properties = [(''x'', StringValue ''y'')]\<rparr>"
  let ?w2 = "snd (generate_context_proto racing_handler ex_run_spec ?w1)"
  let ?w3 = "snd (store_put_contexts racing_handler [?ctx] ?w2)"
  let ?w4 = "snd (store_get_context_by_type_and_name racing_handler ?tn ?n ?w3)"
  let ?r = "register_context_if_not_exist racing_handler ex_run_spec (Some [ex_pipeline])
              ex_race_world"
  have lookup: "store_get_context_by_type_and_name racing_handler ?tn ?n ex_race_world
                  = (Inr None, ?w1)"
    by code_simp
  have gen: "generate_context_proto racing_handler ex_run_spec ?w1 = (Inr ?ctx, ?w2)"
    by code_simp
  have conflict: "store_put_contexts racing_handler [?ctx] ?w2 = (Inl AlreadyExistsError, ?w3)"
    by code_simp
  have reread: "store_get_context_by_type_and_name racing_handler ?tn ?n ?w3
                  = (Inr (Some (ex_rival\<lparr>c_id := 2\<rparr>)), ?w4)"
    by code_simp
  have f1: "fst (store_get_context_by_type_and_name racing_handler ''pipeline_run''
                  (StringValue ''r1'') ex_race_world) = Inr None"
    by code_simp
  have returns: "?r = (Inr (ex_rival\<lparr>c_id := 2\<rparr>), snd ?r)"
    by code_simp
  have before: "calls ?w4 =
     [GetContextByTypeAndName ''pipeline_run'' (StringValue ''r1''),
      RegisterTypeIfNotExist ex_run_type,
      PutContexts [?ctx],
      GetContextByTypeAndName ''pipeline_run'' (StringValue ''r1'')]"
    by code_simp
  from register_conflict_links_parents [OF lookup gen conflict reread, of "[ex_pipeline]"]
    returns
  have "calls (snd ?r) = calls ?w4 @
          map (\<lambda>p. PutParentContexts [\<lparr>parent_id = c_id p, child_id = c_id (ex_rival\<lparr>c_id := 2\<rparr>)\<rparr>])
            [ex_pipeline]"
    by blast
  with before have "calls (snd ?r) =
     [GetContextByTypeAndName ''pipeline_run'' (StringValue ''r1''),
      RegisterTypeIfNotExist ex_run_type,
      PutContexts [?ctx],
      GetContextByTypeAndName ''pipeline_run'' (StringValue ''r1'')] @
     map (\<lambda>p. PutParentContexts [\<lparr>parent_id = c_id p, child_id = 2\<rparr>]) [ex_pipeline]"
    by simp
  with f1 show ?thesis
    by blast
qed

subsection \<open>Idempotence of the edge registrar\<close>

lemma mem_put_parent_contexts_single:
  "mem_put_parent_contexts [p] s =
     (if p \<in> set (ms_parent_contexts s) then (Inl AlreadyExistsError, s)
      else (Inr (), s\<lparr>ms_parent_contexts := ms_parent_contexts s @ [p]\<rparr>))"
  by (simp add: mem_put_parent_contexts_def)

lemma mem_put_parent_context_if_not_exists:
  "put_parent_context_if_not_exists mem_handler p c w =
     (Inr (),
      \<lparr>store =
         (if \<lparr>parent_id = p, child_id = c\<rparr> \<in> set (ms_parent_contexts (store w)) then store w
          else (store w)\<lparr>ms_parent_contexts :=
                 ms_parent_contexts (store w) @ [\<lparr>parent_id = p, child_id = c\<rparr>]\<rparr>),
       calls = calls w @ [PutParentContexts [\<lparr>parent_id = p, child_id = c\<rparr>]]\<rparr>)"
proof -
  have "put_parent_contexts mem_handler [\<lparr>parent_id = p, child_id = c\<rparr>] (store w) =
          mem_put_parent_contexts [\<lparr>parent_id = p, child_id = c\<rparr>] (store w)"
    by (simp add: mem_handler_def)
  then show ?thesis
    by (simp add: put_parent_context_if_not_exists_eq [where r =
          "fst (mem_put_parent_contexts [\<lparr>parent_id = p, child_id = c\<rparr>] (store w))"
          and s' = "snd (mem_put_parent_contexts [\<lparr>parent_id = p, child_id = c\<rparr>] (store w))"]
        mem_put_parent_contexts_single)
qed

text \<open>
  Claim C6. \<^verbatim>\<open>put_parent_context_if_not_exists\<close> makes one call, the insert of the
  edge. When the store answers \<^verbatim>\<open>AlreadyExistsError\<close> the call returns normally, as
  it does when the insert succeeds; any other error of the store is the error of the
  call. On the reference store, whose edge insert fails with \<^verbatim>\<open>AlreadyExists\<close> on a
  duplicate, the first call and a second call on the same pair both return normally, the
  second leaves the store as it was, and the edge is there once if it was absent before
  (and as often as before otherwise).
\<close>

theorem put_parent_context_if_not_exists_idempotent:
  "(\<forall>s'. put_parent_contexts h [\<lparr>parent_id = p, child_id = c\<rparr>] (store w)
            = (Inl AlreadyExistsError, s') \<longrightarrow>
          put_parent_context_if_not_exists h p c w =
            (Inr (), \<lparr>store = s',
                      calls = calls w @ [PutParentContexts [\<lparr>parent_id = p, child_id = c\<rparr>]]\<rparr>)) \<and>
   (\<forall>s'. put_parent_contexts h [\<lparr>parent_id = p, child_id = c\<rparr>] (store w) = (Inr (), s') \<longrightarrow>
          put_parent_context_if_not_exists h p c w =
            (Inr (), \<lparr>store = s',
                      calls = calls w @ [PutParentContexts [\<lparr>parent_id = p, child_id = c\<rparr>]]\<rparr>)) \<and>
   (\<forall>e s'. put_parent_contexts h [\<lparr>parent_id = p, child_id = c\<rparr>] (store w) = (Inl e, s') \<and>
            e \<noteq> AlreadyExistsError \<longrightarrow>
          put_parent_context_if_not_exists h p c w =
            (Inl e, \<lparr>store = s',
                     calls = calls w @ [PutParentContexts [\<lparr>parent_id = p, child_id = c\<rparr>]]\<rparr>)) \<and>
   fst (put_parent_context_if_not_exists mem_handler p c m) = Inr () \<and>
   fst (put_parent_context_if_not_exists mem_handler p c
          (snd (put_parent_context_if_not_exists mem_handler p c m))) = Inr () \<and>
   store (snd (put_parent_context_if_not_exists mem_handler p c
                 (snd (put_parent_context_if_not_exists mem_handler p c m)))) =
     store (snd (put_parent_context_if_not_exists mem_handler p c m)) \<and>
   count_list
     (ms_parent_contexts
        (store (snd (put_parent_context_if_not_exists mem_handler p c
                       (snd (put_parent_context_if_not_exists mem_handler p c m))))))
     \<lparr>parent_id = p, child_id = c\<rparr> =
     max 1 (count_list (ms_parent_contexts (store m)) \<lparr>parent_id = p, child_id = c\<rparr>)"
proof (intro conjI allI impI)
  fix s'
  assume "put_parent_contexts h [\<lparr>parent_id = p, child_id = c\<rparr>] (store w)
            = (Inl AlreadyExistsError, s')"
  from put_parent_context_if_not_exists_eq [OF this]
  show "put_parent_context_if_not_exists h p c w =
            (Inr (), \<lparr>store = s',
                      calls = calls w @ [PutParentContexts [\<lparr>parent_id = p, child_id = c\<rparr>]]\<rparr>)"
    by simp
next
  fix s'
  assume "put_parent_contexts h [\<lparr>parent_id = p, child_id = c\<rparr>] (store w) = (Inr (), s')"
  from put_parent_context_if_not_exists_eq [OF this]
  show "put_parent_context_if_not_exists h p c w =
            (Inr (), \<lparr>store = s',
                      calls = calls w @ [PutParentContexts [\<lparr>parent_id = p, child_id = c\<rparr>]]\<rparr>)"
    by simp
next
  fix e s'
  assume "put_parent_contexts h [\<lparr>parent_id = p, child_id = c\<rparr>] (store w) = (Inl e, s') \<and>
            e \<noteq> AlreadyExistsError"
  then have call: "put_parent_contexts h [\<lparr>parent_id = p, child_id = c\<rparr>] (store w) = (Inl e, s')"
    and other: "e \<noteq> AlreadyExistsError"
    by simp_all
  from put_parent_context_if_not_exists_eq [OF call] other
  show "put_parent_context_if_not_exists h p c w =
            (Inl e, \<lparr>store = s',
                     calls = calls w @ [PutParentContexts [\<lparr>parent_id = p, child_id = c\<rparr>]]\<rparr>)"
    by (cases e) simp_all
next
  show "count_list
     (ms_parent_contexts
        (store (snd (put_parent_context_if_not_exists mem_handler p c
                       (snd (put_parent_context_if_not_exists mem_handler p c m))))))
     \<lparr>parent_id = p, child_id = c\<rparr> =
     max 1 (count_list (ms_parent_contexts (store m)) \<lparr>parent_id = p, child_id = c\<rparr>)"
  proof (cases "\<lparr>parent_id = p, child_id = c\<rparr> \<in> set (ms_parent_contexts (store m))")
    case True
    then have "count_list (ms_parent_contexts (store m)) \<lparr>parent_id = p, child_id = c\<rparr> \<noteq> 0"
      using count_list_0_iff [of "ms_parent_contexts (store m)" "\<lparr>parent_id = p, child_id = c\<rparr>"]
      by blast
    with True show ?thesis
      by (simp add: mem_put_parent_context_if_not_exists)
  next
    case False
    then show ?thesis
      by (simp add: mem_put_parent_context_if_not_exists count_list_0_iff)
  qed
qed (simp_all add: mem_put_parent_context_if_not_exists)

theorem put_parent_context_if_not_exists_idempotent_witness:
  "put_parent_context_if_not_exists mem_handler 1 2
     \<lparr>store = ex_store\<lparr>ms_parent_contexts := [\<lparr>parent_id = 1, child_id = 2\<rparr>]\<rparr>, calls = []\<rparr> =
     (Inr (),
      \<lparr>store = ex_store\<lparr>ms_parent_contexts := [\<lparr>parent_id = 1, child_id = 2\<rparr>]\<rparr>,
       calls = [PutParentContexts [\<lparr>parent_id = 1, child_id = 2\<rparr>]]\<rparr>) \<and>
   put_parent_context_if_not_exists mem_handler 1 2 \<lparr>store = ex_store, calls = []\<rparr> =
     (Inr (),
      \<lparr>store = ex_store\<lparr>ms_parent_contexts := [\<lparr>parent_id = 1, child_id = 2\<rparr>]\<rparr>,
       calls = [PutParentContexts [\<lparr>parent_id = 1, child_id = 2\<rparr>]]\<rparr>) \<and>
   put_parent_context_if_not_exists unavailable_handler 1 2 \<lparr>store = (), calls = []\<rparr> =
     (Inl (OtherStoreError ''unavailable''),
      \<lparr>store = (), calls = [PutParentContexts [\<lparr>parent_id = 1, child_id = 2\<rparr>]]\<rparr>)"
proof -
  let ?e = "\<lparr>parent_id = 1, child_id = 2\<rparr>"
  let ?linked = "ex_store\<lparr>ms_parent_contexts := [?e]\<rparr>"
  have dup: "put_parent_contexts mem_handler [?e] (store \<lparr>store = ?linked, calls = []\<rparr>)
          = (Inl AlreadyExistsError, ?linked)"
    by code_simp
  have new: "put_parent_contexts mem_handler [?e] (store \<lparr>store = ex_store, calls = []\<rparr>)
          = (Inr (), ?linked)"
    by code_simp
  have down: "put_parent_contexts unavailable_handler [?e] (store \<lparr>store = (), calls = []\<rparr>)
          = (Inl (OtherStoreError ''unavailable''), ()) \<and>
        OtherStoreError ''unavailable'' \<noteq> AlreadyExistsError"
    by code_simp
  from put_parent_context_if_not_exists_idempotent
         [of mem_handler 1 2 "\<lparr>store = ?linked, calls = []\<rparr>"] dup
  have a: "put_parent_context_if_not_exists mem_handler 1 2 \<lparr>store = ?linked, calls = []\<rparr> =
     (Inr (), \<lparr>store = ?linked, calls = [PutParentContexts [?e]]\<rparr>)"
    by simp
  from put_parent_context_if_not_exists_idempotent
         [of mem_handler 1 2 "\<lparr>store = ex_store, calls = []\<rparr>"] new
  have b: "put_parent_context_if_not_exists mem_handler 1 2 \<lparr>store = ex_store, calls = []\<rparr> =
     (Inr (), \<lparr>store = ?linked, calls = [PutParentContexts [?e]]\<rparr>)"
    by simp
  from put_parent_context_if_not_exists_idempotent
         [of unavailable_handler 1 2 "\<lparr>store = (), calls = []\<rparr>"] down
  have c: "put_parent_context_if_not_exists unavailable_handler 1 2 \<lparr>store = (), calls = []\<rparr> =
     (Inl (OtherStoreError ''unavailable''),
      \<lparr>store = (), calls = [PutParentContexts [?e]]\<rparr>)"
    by simp
  from a b c show ?thesis
    by simp
qed

subsection \<open>The context builder\<close>

lemma generate_properties_first_mismatch:
  assumes "\<forall>(k', v') \<in> set pre.
             map_of schema k' = None \<or> map_of schema k' = Some (get_metadata_value_type v')"
    and "map_of schema k = Some expected"
    and "expected \<noteq> get_metadata_value_type v"
  shows "generate_properties schema (pre @ (k, v) # post) result =
           Inl (PropertyTypeMismatch (get_metadata_value_type v) expected k)"
  using assms
proof (induction pre arbitrary: result)
  case Nil
  then show ?case by simp
next
  case (Cons kv pre)
  obtain k' v' where kv: "kv = (k', v')" by (cases kv)
  with Cons.prems have ok: "map_of schema k' = None \<or>
      map_of schema k' = Some (get_metadata_value_type v')"
    by simp
  from Cons.prems have rest: "\<forall>(k', v') \<in> set pre.
      map_of schema k' = None \<or> map_of schema k' = Some (get_metadata_value_type v')"
    by simp
  from ok show ?case
    using Cons.IH [OF rest Cons.prems(2) Cons.prems(3)] kv
    by (auto simp: Let_def)
qed

lemma generate_properties_no_mismatch:
  assumes "\<forall>(k, v) \<in> set kvs.
             map_of schema k = None \<or> map_of schema k = Some (get_metadata_value_type v)"
  shows "\<exists>result'. generate_properties schema kvs result = Inr result'"
  using assms
proof (induction kvs arbitrary: result)
  case Nil
  then show ?case by simp
next
  case (Cons kv kvs)
  obtain k v where kv: "kv = (k, v)" by (cases kv)
  from Cons.prems have rest: "\<forall>(k, v) \<in> set kvs.
      map_of schema k = None \<or> map_of schema k = Some (get_metadata_value_type v)"
    by simp
  from Cons.prems kv have "map_of schema k = None \<or>
      map_of schema k = Some (get_metadata_value_type v)"
    by simp
  then show ?case
    using Cons.IH [OF rest] kv by (auto simp: Let_def)
qed

lemma generate_properties_placement:
  assumes "generate_properties schema kvs result = Inr result'"
    and "distinct (map fst kvs)"
  shows "(\<forall>(k, v) \<in> set kvs.
            map_of schema k = None \<or> map_of schema k = Some (get_metadata_value_type v)) \<and>
         (\<forall>k. map_of (c_properties result') k =
            (if k \<in> fst ` set kvs \<and> map_of schema k \<noteq> None
             then map_option field_value (map_of kvs k) else map_of (c_properties result) k)) \<and>
         (\<forall>k. map_of (c_custom_properties result') k =
            (if k \<in> fst ` set kvs \<and> map_of schema k = None
             then map_option field_value (map_of kvs k)
             else map_of (c_custom_properties result) k)) \<and>
         c_id result' = c_id result \<and> c_type_id result' = c_type_id result \<and>
         c_name result' = c_name result"
  using assms
proof (induction kvs arbitrary: result)
  case Nil
  then show ?case by simp
next
  case (Cons kv kvs)
  obtain k v where kv: "kv = (k, v)" by (cases kv)
  from Cons.prems(2) kv have fresh: "k \<notin> fst ` set kvs" and dist: "distinct (map fst kvs)"
    by simp_all
  show ?case
  proof (cases "map_of schema k")
    case None
    let ?r = "result\<lparr>c_custom_properties := set_metadata_value (c_custom_properties result) k v\<rparr>"
    from Cons.prems(1) kv None have run: "generate_properties schema kvs ?r = Inr result'"
      by simp
    from Cons.IH [OF run dist] fresh None kv show ?thesis
      by (auto simp: set_metadata_value_def update_conv' image_iff)
  next
    case (Some expected)
    let ?r = "result\<lparr>c_properties := set_metadata_value (c_properties result) k v\<rparr>"
    from Cons.prems(1) kv Some have same: "expected = get_metadata_value_type v"
      by (auto simp: Let_def split: if_splits)
    with Cons.prems(1) kv Some have run: "generate_properties schema kvs ?r = Inr result'"
      by (simp add: Let_def)
    from Cons.IH [OF run dist] fresh Some same kv show ?thesis
      by (auto simp: set_metadata_value_def update_conv' image_iff)
  qed
qed

lemma generate_context_proto_eq:
  assumes "common_utils_register_type_if_not_exist h (spec_type spec) w = (Inr context_type, w1)"
    and "get_value (spec_name spec) = StringValue n"
  shows "generate_context_proto h spec w =
           (generate_properties (ct_properties context_type) (spec_properties spec)
              \<lparr>c_id = 0, c_type_id = ct_id context_type, c_name = n,
               c_properties = [], c_custom_properties = []\<rparr>,
            w1)"
  using assms by (simp add: generate_context_proto_def)

text \<open>
  Claim C5. Let the type registrar return the registered type and let the spec's name be
  a string. Iterating over the declared properties, the builder fails at the first entry
  whose key is in the schema with another kind than the value's, with the error that
  carries the value's kind, the schema's kind and the key; so whenever some entry
  disagrees with the schema the call fails with such an error for a disagreeing entry.
  When the call returns a context (the keys of a proto map being distinct), every
  declared property whose key is in the schema has the schema's kind and is in
  \<^verbatim>\<open>properties\<close>, and every declared property whose key is not in the schema is in
  \<^verbatim>\<open>custom_properties\<close>. A key absent from the schema never makes the builder
  fail: when no entry disagrees with the schema the call returns a context.
\<close>

theorem generate_context_proto_checks_schema:
  assumes reg: "common_utils_register_type_if_not_exist h (spec_type spec) w
                  = (Inr context_type, w1)"
    and name: "get_value (spec_name spec) = StringValue n"
  shows "(\<forall>pre k v post expected.
            spec_properties spec = pre @ (k, v) # post \<and>
            (\<forall>(k', v') \<in> set pre.
               map_of (ct_properties context_type) k' = None \<or>
               map_of (ct_properties context_type) k' = Some (get_metadata_value_type v')) \<and>
            map_of (ct_properties context_type) k = Some expected \<and>
            expected \<noteq> get_metadata_value_type v \<longrightarrow>
            generate_context_proto h spec w =
              (Inl (PropertyTypeMismatch (get_metadata_value_type v) expected k), w1)) \<and>
         ((\<exists>(k, v) \<in> set (spec_properties spec). \<exists>expected.
              map_of (ct_properties context_type) k = Some expected \<and>
              expected \<noteq> get_metadata_value_type v) \<longrightarrow>
          (\<exists>k v expected.
              (k, v) \<in> set (spec_properties spec) \<and>
              map_of (ct_properties context_type) k = Some expected \<and>
              expected \<noteq> get_metadata_value_type v \<and>
              generate_context_proto h spec w =
                (Inl (PropertyTypeMismatch (get_metadata_value_type v) expected k), w1))) \<and>
         (\<forall>result w'.
            generate_context_proto h spec w = (Inr result, w') \<and>
            distinct (map fst (spec_properties spec)) \<longrightarrow>
            (\<forall>(k, v) \<in> set (spec_properties spec).
               case map_of (ct_properties context_type) k of
                 Some expected \<Rightarrow>
                   expected = get_metadata_value_type v \<and>
                   map_of (c_properties result) k = Some (field_value v) \<and>
                   map_of (c_custom_properties result) k = None
               | None \<Rightarrow>
                   map_of (c_custom_properties result) k = Some (field_value v) \<and>
                   map_of (c_properties result) k = None)) \<and>
         ((\<forall>(k, v) \<in> set (spec_properties spec).
              map_of (ct_properties context_type) k = None \<or>
              map_of (ct_properties context_type) k = Some (get_metadata_value_type v)) \<longrightarrow>
          (\<exists>result. generate_context_proto h spec w = (Inr result, w1)))"
proof (intro conjI)
  let ?schema = "ct_properties context_type"
  let ?props = "spec_properties spec"
  let ?new = "\<lparr>c_id = 0, c_type_id = ct_id context_type, c_name = n,
               c_properties = [], c_custom_properties = []\<rparr>"
  note eq = generate_context_proto_eq [OF reg name]
  show first: "\<forall>pre k v post expected.
            ?props = pre @ (k, v) # post \<and>
            (\<forall>(k', v') \<in> set pre.
               map_of ?schema k' = None \<or>
               map_of ?schema k' = Some (get_metadata_value_type v')) \<and>
            map_of ?schema k = Some expected \<and>
            expected \<noteq> get_metadata_value_type v \<longrightarrow>
            generate_context_proto h spec w =
              (Inl (PropertyTypeMismatch (get_metadata_value_type v) expected k), w1)"
    by (auto simp: eq generate_properties_first_mismatch)
  show "(\<exists>(k, v) \<in> set ?props. \<exists>expected.
              map_of ?schema k = Some expected \<and>
              expected \<noteq> get_metadata_value_type v) \<longrightarrow>
          (\<exists>k v expected.
              (k, v) \<in> set ?props \<and>
              map_of ?schema k = Some expected \<and>
              expected \<noteq> get_metadata_value_type v \<and>
              generate_context_proto h spec w =
                (Inl (PropertyTypeMismatch (get_metadata_value_type v) expected k), w1))"
  proof
    let ?bad = "\<lambda>kv. \<exists>expected. map_of ?schema (fst kv) = Some expected \<and>
                  expected \<noteq> get_metadata_value_type (snd kv)"
    assume "\<exists>(k, v) \<in> set ?props. \<exists>expected.
              map_of ?schema k = Some expected \<and> expected \<noteq> get_metadata_value_type v"
    then have "\<exists>kv \<in> set ?props. ?bad kv"
      by force
    from split_list_first_prop [OF this]
    obtain pre kv post where split: "?props = pre @ kv # post" and bad: "?bad kv"
      and before: "\<forall>y \<in> set pre. \<not> ?bad y"
      by blast
    obtain k v where kv: "kv = (k, v)" by (cases kv)
    from bad kv obtain expected where exp: "map_of ?schema k = Some expected"
      and differs: "expected \<noteq> get_metadata_value_type v"
      by auto
    have ok: "\<forall>(k', v') \<in> set pre.
        map_of ?schema k' = None \<or> map_of ?schema k' = Some (get_metadata_value_type v')"
    proof (intro ballI)
      fix y
      assume "y \<in> set pre"
      with before have "\<not> ?bad y"
        by blast
      then show "case y of (k', v') \<Rightarrow>
        map_of ?schema k' = None \<or> map_of ?schema k' = Some (get_metadata_value_type v')"
        by (cases y; cases "map_of ?schema (fst y)") auto
    qed
    from first split kv ok exp differs
    have "generate_context_proto h spec w =
            (Inl (PropertyTypeMismatch (get_metadata_value_type v) expected k), w1)"
      by blast
    moreover from split kv have "(k, v) \<in> set ?props"
      by simp
    ultimately show "\<exists>k v expected.
              (k, v) \<in> set ?props \<and>
              map_of ?schema k = Some expected \<and>
              expected \<noteq> get_metadata_value_type v \<and>
              generate_context_proto h spec w =
                (Inl (PropertyTypeMismatch (get_metadata_value_type v) expected k), w1)"
      using exp differs by blast
  qed
  show "\<forall>result w'.
            generate_context_proto h spec w = (Inr result, w') \<and>
            distinct (map fst ?props) \<longrightarrow>
            (\<forall>(k, v) \<in> set ?props.
               case map_of ?schema k of
                 Some expected \<Rightarrow>
                   expected = get_metadata_value_type v \<and>
                   map_of (c_properties result) k = Some (field_value v) \<and>
                   map_of (c_custom_properties result) k = None
               | None \<Rightarrow>
                   map_of (c_custom_properties result) k = Some (field_value v) \<and>
                   map_of (c_properties result) k = None)"
  proof (intro allI impI)
    fix result w'
    assume "generate_context_proto h spec w = (Inr result, w') \<and> distinct (map fst ?props)"
    then have run: "generate_properties ?schema ?props ?new = Inr result"
      and dist: "distinct (map fst ?props)"
      by (simp_all add: eq)
    note placed = generate_properties_placement [OF run dist]
    show "\<forall>(k, v) \<in> set ?props.
               case map_of ?schema k of
                 Some expected \<Rightarrow>
                   expected = get_metadata_value_type v \<and>
                   map_of (c_properties result) k = Some (field_value v) \<and>
                   map_of (c_custom_properties result) k = None
               | None \<Rightarrow>
                   map_of (c_custom_properties result) k = Some (field_value v) \<and>
                   map_of (c_properties result) k = None"
    proof (intro ballI, clarify)
      fix k v
      assume mem: "(k, v) \<in> set ?props"
      with dist have look: "map_of ?props k = Some v"
        by simp
      from mem have key: "k \<in> fst ` set ?props"
        by force
      from placed mem have ok: "map_of ?schema k = None \<or>
          map_of ?schema k = Some (get_metadata_value_type v)"
        by blast
      from placed have p: "map_of (c_properties result) k =
            (if k \<in> fst ` set ?props \<and> map_of ?schema k \<noteq> None
             then map_option field_value (map_of ?props k) else map_of (c_properties ?new) k)"
        and c: "map_of (c_custom_properties result) k =
            (if k \<in> fst ` set ?props \<and> map_of ?schema k = None
             then map_option field_value (map_of ?props k)
             else map_of (c_custom_properties ?new) k)"
        by blast+
      from ok p c key look show "case map_of ?schema k of
                 Some expected \<Rightarrow>
                   expected = get_metadata_value_type v \<and>
                   map_of (c_properties result) k = Some (field_value v) \<and>
                   map_of (c_custom_properties result) k = None
               | None \<Rightarrow>
                   map_of (c_custom_properties result) k = Some (field_value v) \<and>
                   map_of (c_properties result) k = None"
        by (auto split: option.splits)
    qed
  qed
  show "(\<forall>(k, v) \<in> set ?props.
              map_of ?schema k = None \<or>
              map_of ?schema k = Some (get_metadata_value_type v)) \<longrightarrow>
          (\<exists>result. generate_context_proto h spec w = (Inr result, w1))"
    using generate_properties_no_mismatch [of ?props ?schema ?new]
    by (auto simp: eq)
qed

theorem generate_context_proto_checks_schema_witness:
  "fst (generate_context_proto mem_handler ex_bad_spec \<lparr>store = ex_store, calls = []\<rparr>) =
     Inl (PropertyTypeMismatch PT_STRING PT_INT ''n'') \<and>
   (\<exists>result.
      fst (generate_context_proto mem_handler ex_run_spec \<lparr>store = ex_store, calls = []\<rparr>) =
        Inr result \<and>
      map_of (c_properties result) ''n'' = Some (IntValue 3) \<and>
      map_of (c_custom_properties result) ''x'' = Some (StringValue ''y''))"
proof -
  let ?w = "\<lparr>store = ex_store, calls = []\<rparr> :: mem_store world"
  let ?t = "\<lparr>ct_id = 2, ct_name = ''pipeline_run'', ct_properties = [(''n'', PT_INT)]\<rparr>"
  let ?w1 = "snd (common_utils_register_type_if_not_exist mem_handler ex_run_type ?w)"
  have reg_bad: "common_utils_register_type_if_not_exist mem_handler (spec_type ex_bad_spec) ?w
                   = (Inr ?t, ?w1)"
    by code_simp
  have name_bad: "get_value (spec_name ex_bad_spec) = StringValue ''r1''"
    by code_simp
  have reg: "common_utils_register_type_if_not_exist mem_handler (spec_type ex_run_spec) ?w
               = (Inr ?t, ?w1)"
    by code_simp
  have name: "get_value (spec_name ex_run_spec) = StringValue ''r1''"
    by code_simp
  have split: "spec_properties ex_bad_spec =
      [(''x'', Value (StringValue ''y''))] @ (''n'', Value (StringValue ''three'')) # []"
    by code_simp
  have before: "\<forall>(k', v') \<in> set [(''x'', Value (StringValue ''y''))].
      map_of (ct_properties ?t) k' = None \<or>
      map_of (ct_properties ?t) k' = Some (get_metadata_value_type v')"
    by simp
  have declared: "map_of (ct_properties ?t) ''n'' = Some PT_INT"
    by simp
  have differs: "PT_INT \<noteq> get_metadata_value_type (Value (StringValue ''three''))"
    by (simp add: get_metadata_value_type_def)
  from generate_context_proto_checks_schema [OF reg_bad name_bad] split before declared differs
  have "generate_context_proto mem_handler ex_bad_spec ?w =
          (Inl (PropertyTypeMismatch (get_metadata_value_type (Value (StringValue ''three'')))
                  PT_INT ''n''), ?w1)"
    by blast
  then have bad: "fst (generate_context_proto mem_handler ex_bad_spec ?w) =
     Inl (PropertyTypeMismatch PT_STRING PT_INT ''n'')"
    by (simp add: get_metadata_value_type_def)
  have agree: "\<forall>(k, v) \<in> set (spec_properties ex_run_spec).
      map_of (ct_properties ?t) k = None \<or>
      map_of (ct_properties ?t) k = Some (get_metadata_value_type v)"
    by (simp add: ex_run_spec_def get_metadata_value_type_def)
  have dist: "distinct (map fst (spec_properties ex_run_spec))"
    by (simp add: ex_run_spec_def)
  note good = generate_context_proto_checks_schema [OF reg name]
  from good agree obtain result
    where run: "generate_context_proto mem_handler ex_run_spec ?w = (Inr result, ?w1)"
    by blast
  from good run dist have placed: "\<forall>(k, v) \<in> set (spec_properties ex_run_spec).
      case map_of (ct_properties ?t) k of
        Some expected \<Rightarrow>
          expected = get_metadata_value_type v \<and>
          map_of (c_properties result) k = Some (field_value v) \<and>
          map_of (c_custom_properties result) k = None
      | None \<Rightarrow>
          map_of (c_custom_properties result) k = Some (field_value v) \<and>
          map_of (c_properties result) k = None"
    by blast
  then have "map_of (c_properties result) ''n'' = Some (IntValue 3)"
    and "map_of (c_custom_properties result) ''x'' = Some (StringValue ''y'')"
    by (simp_all add: ex_run_spec_def)
  with run bad show ?thesis
    by simp
qed

subsection \<open>The batch orchestrator\<close>

lemma link_parents_and_return_no_parents:
  "link_parents_and_return h None = link_parents_and_return h (Some [])"
  by (simp add: fun_eq_iff link_parents_and_return_def)

lemma register_context_if_not_exist_no_parents:
  "register_context_if_not_exist h spec None w = register_context_if_not_exist h spec (Some []) w"
  by (simp add: register_context_if_not_exist_def link_parents_and_return_no_parents
      cong: prod.case_cong sum.case_cong option.case_cong)

lemma register_pipeline_contexts_each:
  "register_pipeline_contexts h specs pipeline_contexts result w =
     (case register_each h (map (\<lambda>spec. (spec, [])) (filter is_pipeline specs)) w of
        (Inl e, w') \<Rightarrow> (Inl e, w')
      | (Inr entities, w') \<Rightarrow> (Inr (pipeline_contexts @ entities, result @ entities), w'))"
proof (induction specs arbitrary: pipeline_contexts result w)
  case Nil
  then show ?case by simp
next
  case (Cons spec specs)
  show ?case
  proof (cases "is_pipeline spec")
    case False
    with Cons.IH show ?thesis
      by (simp add: is_pipeline_def)
  next
    case True
    then show ?thesis
      by (simp add: Cons.IH is_pipeline_def register_context_if_not_exist_no_parents
          split: prod.splits sum.splits)
  qed
qed

lemma register_other_contexts_each:
  "register_other_contexts h pipeline_contexts specs result w =
     (case register_each h
             (map (\<lambda>spec. (spec, pass2_parents pipeline_contexts spec))
                (filter (\<lambda>spec. \<not> is_pipeline spec) specs)) w of
        (Inl e, w') \<Rightarrow> (Inl e, w')
      | (Inr entities, w') \<Rightarrow> (Inr (result @ entities), w'))"
proof (induction specs arbitrary: result w)
  case Nil
  then show ?case by simp
next
  case (Cons spec specs)
  show ?case
  proof (cases "is_pipeline spec")
    case True
    with Cons.IH show ?thesis
      by (simp add: is_pipeline_def)
  next
    case False
    then show ?thesis
      by (simp add: Cons.IH is_pipeline_def is_pipeline_run_def pass2_parents_def
          split: prod.splits sum.splits)
  qed
qed

text \<open>
  Claim C7. \<^verbatim>\<open>prepare_contexts\<close> is the two-pass registration of the specification:
  it registers every spec of the pipeline type with no parents, in the order met, then
  every remaining spec in the original order, and returns the entities of the first pass
  followed by those of the second; a failure of any registration is the failure of the
  batch, with the store as that registration left it.
\<close>

theorem prepare_contexts_is_register_batch:
  "prepare_contexts h node_contexts w = register_batch h (contexts node_contexts) w"
  by (simp add: prepare_contexts_def register_batch_def register_pipeline_contexts_each
      register_other_contexts_each split: prod.splits sum.splits)

theorem prepare_contexts_is_register_batch_witness:
  "prepare_contexts mem_handler ex_batch ex_empty_world =
     register_batch mem_handler (contexts ex_batch) ex_empty_world \<and>
   map_sum id (map c_name) (fst (prepare_contexts mem_handler ex_batch ex_empty_world)) =
     Inr [''p1'', ''r1'', ''o1''] \<and>
   map_sum id (map c_name)
     (fst (prepare_contexts mem_handler ex_batch_pipeline_last ex_empty_world)) =
     Inr [''p1'', ''r1'', ''o1'']"
proof -
  have "map_sum id (map c_name)
          (fst (register_batch mem_handler (contexts ex_batch) ex_empty_world)) =
        Inr [''p1'', ''r1'', ''o1'']"
    by code_simp
  moreover have "map_sum id (map c_name)
          (fst (register_batch mem_handler (contexts ex_batch_pipeline_last) ex_empty_world)) =
        Inr [''p1'', ''r1'', ''o1'']"
    by code_simp
  ultimately show ?thesis
    using prepare_contexts_is_register_batch [of mem_handler ex_batch ex_empty_world]
      prepare_contexts_is_register_batch [of mem_handler ex_batch_pipeline_last ex_empty_world]
    by simp
qed

text \<open>
  Claim C8. Whatever pipeline contexts the first loop has collected, the second loop
  registers every spec that is not of the pipeline type, in the original order: a spec of
  the pipeline-run type with all the collected pipeline contexts as its parents, any other
  spec with the empty parent list. The entities are appended to the result of the first
  loop.
\<close>

theorem prepare_contexts_second_pass_parents:
  "prepare_contexts h node_contexts w =
     (case register_pipeline_contexts h (contexts node_contexts) [] [] w of
        (Inl e, w1) \<Rightarrow> (Inl e, w1)
      | (Inr (pipeline_contexts, result), w1) \<Rightarrow>
          (case register_each h
                  (map (\<lambda>spec.
                          (spec,
                           if ct_name (spec_type spec) = PIPELINE_RUN_CONTEXT_TYPE_NAME
                           then pipeline_contexts else []))
                     (filter (\<lambda>spec. ct_name (spec_type spec) \<noteq> PIPELINE_CONTEXT_TYPE_NAME)
                        (contexts node_contexts))) w1 of
             (Inl e, w2) \<Rightarrow> (Inl e, w2)
           | (Inr others, w2) \<Rightarrow> (Inr (result @ others), w2)))"
proof -
  have "(\<lambda>spec. (spec, pass2_parents pcs spec)) =
        (\<lambda>spec. (spec, if ct_name (spec_type spec) = PIPELINE_RUN_CONTEXT_TYPE_NAME
                        then pcs else []))" for pcs
    by (simp add: pass2_parents_def is_pipeline_run_def)
  moreover have "(\<lambda>spec. \<not> is_pipeline spec) =
        (\<lambda>spec. ct_name (spec_type spec) \<noteq> PIPELINE_CONTEXT_TYPE_NAME)"
    by (simp add: is_pipeline_def)
  ultimately show ?thesis
    by (simp add: prepare_contexts_def register_other_contexts_each
        split: prod.splits sum.splits)
qed

theorem prepare_contexts_second_pass_parents_witness:
  "map_sum id (map c_id)
     (fst (prepare_contexts mem_handler ex_batch_two_pipelines ex_empty_world)) =
     Inr [1, 2, 3] \<and>
   ms_parent_contexts
     (store (snd (prepare_contexts mem_handler ex_batch_two_pipelines ex_empty_world))) =
     [\<lparr>parent_id = 1, child_id = 3\<rparr>, \<lparr>parent_id = 2, child_id = 3\<rparr>] \<and>
   map_sum id (map c_id) (fst (prepare_contexts mem_handler ex_batch ex_empty_world)) =
     Inr [1, 2, 3] \<and>
   ms_parent_contexts (store (snd (prepare_contexts mem_handler ex_batch ex_empty_world))) =
     [\<lparr>parent_id = 1, child_id = 2\<rparr>]"
  unfolding prepare_contexts_second_pass_parents
  by code_simp

subsection \<open>Registering the same spec twice\<close>

lemma perform_result:
  "perform c f w = (r, w') \<Longrightarrow> f (store w) = (r, store w') \<and> calls w' = calls w @ [c]"
  by (auto simp: perform_def split: prod.splits)

lemma generate_context_proto_Inr:
  assumes "generate_context_proto h spec w = (Inr ctx, w')"
  shows "\<exists>registered n.
           register_type_if_not_exist h (spec_type spec) (store w) = (Inr registered, store w') \<and>
           get_value (spec_name spec) = StringValue n \<and>
           c_type_id ctx = ct_id registered \<and> c_name ctx = n"
proof -
  obtain r w1 where reg: "common_utils_register_type_if_not_exist h (spec_type spec) w = (r, w1)"
    by (cases "common_utils_register_type_if_not_exist h (spec_type spec) w")
  with assms obtain registered where r: "r = Inr registered"
    by (cases r) (auto simp: generate_context_proto_def)
  from assms reg r obtain n where name: "get_value (spec_name spec) = StringValue n"
    by (cases "get_value (spec_name spec)") (auto simp: generate_context_proto_def)
  from assms reg r name have w': "w' = w1"
    and props: "generate_properties (ct_properties registered) (spec_properties spec)
                  \<lparr>c_id = 0, c_type_id = ct_id registered, c_name = n,
                   c_properties = [], c_custom_properties = []\<rparr> = Inr ctx"
    by (simp_all add: generate_context_proto_def)
  have kept: "c_type_id r' = c_type_id r0 \<and> c_name r' = c_name r0"
    if "generate_properties schema kvs r0 = Inr r'" for schema kvs r0 r'
    using that
  proof (induction kvs arbitrary: r0)
    case Nil
    then show ?case by simp
  next
    case (Cons kv kvs)
    obtain k v where "kv = (k, v)" by (cases kv)
    with Cons.prems Cons.IH show ?case
      by (cases "map_of schema k") (fastforce simp: Let_def split: if_splits)+
  qed
  from reg r w' have "register_type_if_not_exist h (spec_type spec) (store w)
                        = (Inr registered, store w')"
    by (auto simp: common_utils_register_type_if_not_exist_def dest: perform_result)
  with kept [OF props] name show ?thesis
    by auto
qed

text \<open>
  Claim C4. On a store whose lookups are stable and whose inserts are visible, if
  \<^verbatim>\<open>_register_context_if_not_exist\<close> returns a context for a spec and no parents
  (\<^verbatim>\<open>None\<close> or the empty list), a second call with the same spec and no parents,
  started where the first ended, returns a context with the same id.
\<close>

theorem register_twice_same_id:
  assumes stable: "lookup_is_stable h"
    and visible: "insert_is_visible h"
    and no_parents: "parents = None \<or> parents = Some []"
    and first: "register_context_if_not_exist h spec parents w = (Inr c1, w1)"
  shows "\<exists>c2 w2. register_context_if_not_exist h spec parents w1 = (Inr c2, w2) \<and>
                  c_id c2 = c_id c1"
proof -
  let ?tn = "ct_name (spec_type spec)" and ?n = "get_value (spec_name spec)"
  have found: "\<exists>c2 w2. register_context_if_not_exist h spec parents w1 = (Inr c2, w2) \<and>
                  c_id c2 = c_id c1"
    if "get_context_by_type_and_name h ?tn ?n (store w1) = (Inr (Some c), s)"
      and "c_id c = c_id c1" for c s
    using that
    by (simp add: register_context_if_not_exist_def store_get_context_by_type_and_name_def
        perform_eq)
  have link: "link_parents_and_return h parents c v = (Inr c, v)" for c v
    using no_parents by (auto simp: link_parents_and_return_def)
  obtain r v1 where lookup: "store_get_context_by_type_and_name h ?tn ?n w = (r, v1)"
    by (cases "store_get_context_by_type_and_name h ?tn ?n w")
  then have raw: "get_context_by_type_and_name h ?tn ?n (store w) = (r, store v1)"
    by (auto simp: store_get_context_by_type_and_name_def dest: perform_result)
  from first lookup obtain answer where r: "r = Inr answer"
    by (cases r) (auto simp: register_context_if_not_exist_def)
  show ?thesis
  proof (cases answer)
    case (Some c)
    with first lookup r have "c1 = c" and "w1 = v1"
      by (simp_all add: register_context_if_not_exist_def)
    with raw r Some stable obtain c' s'' where
      "get_context_by_type_and_name h ?tn ?n (store w1) = (Inr (Some c'), s'')"
      and "c_id c' = c_id c1"
      unfolding lookup_is_stable_def by blast
    then show ?thesis
      by (rule found)
  next
    case None
    obtain g v2 where gen: "generate_context_proto h spec v1 = (g, v2)"
      by (cases "generate_context_proto h spec v1")
    with first lookup r None obtain ctx where g: "g = Inr ctx"
      by (cases g) (auto simp: register_context_if_not_exist_def)
    obtain p v3 where put: "store_put_contexts h [ctx] v2 = (p, v3)"
      by (cases "store_put_contexts h [ctx] v2")
    then have raw_put: "put_contexts h [ctx] (store v2) = (p, store v3)"
      by (auto simp: store_put_contexts_def dest: perform_result)
    from generate_context_proto_Inr gen g obtain registered nm where
      reg: "register_type_if_not_exist h (spec_type spec) (store v1) = (Inr registered, store v2)"
      and name: "?n = StringValue nm"
      and ctx: "c_type_id ctx = ct_id registered" "c_name ctx = nm"
      by blast
    show ?thesis
    proof (cases p)
      case (Inr ids)
      with first lookup r None gen g put link obtain i where ids: "ids = [i]"
        and c1: "c1 = ctx\<lparr>c_id := i\<rparr>" and w1: "w1 = v3"
        by (cases ids; cases "tl ids")
          (auto simp: register_context_if_not_exist_def put_context_or_reread_def)
      from visible reg ctx raw_put Inr ids obtain c' s3 where
        "get_context_by_type_and_name h ?tn (StringValue (c_name ctx)) (store v3)
           = (Inr (Some c'), s3)" and "c_id c' = i"
        unfolding insert_is_visible_def by blast
      with name ctx c1 w1 show ?thesis
        by (intro found [of c' s3]) simp_all
    next
      case (Inl e)
      with first lookup r None gen g put have e: "e = AlreadyExistsError"
        by (cases e)
          (auto simp: register_context_if_not_exist_def put_context_or_reread_def)
      obtain rr v4 where reread: "store_get_context_by_type_and_name h ?tn ?n v3 = (rr, v4)"
        by (cases "store_get_context_by_type_and_name h ?tn ?n v3")
      then have raw_reread: "get_context_by_type_and_name h ?tn ?n (store v3) = (rr, store v4)"
        by (auto simp: store_get_context_by_type_and_name_def dest: perform_result)
      from first lookup r None gen g put Inl e reread link
      have "rr = Inr (Some c1)" and "w1 = v4"
        by (auto simp: register_context_if_not_exist_def put_context_or_reread_def
            split: sum.splits option.splits)
      with raw_reread stable obtain c' s'' where
        "get_context_by_type_and_name h ?tn ?n (store w1) = (Inr (Some c'), s'')"
        and "c_id c' = c_id c1"
        unfolding lookup_is_stable_def by blast
      then show ?thesis
        by (rule found)
    qed
  qed
qed

lemma find_append:
  "find P (xs @ ys) = (case find P xs of None \<Rightarrow> find P ys | Some x \<Rightarrow> Some x)"
  by (induction xs) simp_all

lemma mem_handler_lookup_is_stable: "lookup_is_stable mem_handler"
  unfolding lookup_is_stable_def
  by (auto simp: mem_handler_def mem_get_context_by_type_and_name_def
      split: mlmd_value.splits option.splits)

lemma mem_register_type_if_not_exist_first:
  assumes "mem_register_type_if_not_exist t s = (Inr registered, s1)"
  shows "find (\<lambda>t'. ct_name t' = ct_name t) (ms_types s1) = Some registered \<and>
         ms_contexts s1 = ms_contexts s"
proof (cases "find (\<lambda>t'. ct_name t' = ct_name t) (ms_types s)")
  case None
  with assms show ?thesis
    by (auto simp: mem_register_type_if_not_exist_def Let_def find_append)
next
  case (Some t')
  with assms show ?thesis
    by (auto simp: mem_register_type_if_not_exist_def)
qed

lemma mem_put_contexts_single:
  assumes "mem_put_contexts [c] s = (Inr ids, s')"
  shows "find (\<lambda>c'. c_type_id c' = c_type_id c \<and> c_name c' = c_name c) (ms_contexts s) = None \<and>
         ids = [next_id (map c_id (ms_contexts s))] \<and>
         s' = s\<lparr>ms_contexts := ms_contexts s @ [c\<lparr>c_id := next_id (map c_id (ms_contexts s))\<rparr>]\<rparr>"
  using assms
  by (auto simp: mem_put_contexts_def Let_def split: option.splits)

lemma mem_handler_insert_is_visible: "insert_is_visible mem_handler"
  unfolding insert_is_visible_def
proof (intro allI impI, elim conjE)
  fix t s registered s1 c i s2
  assume reg: "register_type_if_not_exist mem_handler t s = (Inr registered, s1)"
    and ty: "c_type_id c = ct_id registered"
    and put: "put_contexts mem_handler [c] s1 = (Inr [i], s2)"
  from reg have "mem_register_type_if_not_exist t s = (Inr registered, s1)"
    by (simp add: mem_handler_def)
  then have first: "find (\<lambda>t'. ct_name t' = ct_name t) (ms_types s1) = Some registered"
    by (simp add: mem_register_type_if_not_exist_first)
  from put have "mem_put_contexts [c] s1 = (Inr [i], s2)"
    by (simp add: mem_handler_def)
  from mem_put_contexts_single [OF this]
  have absent: "find (\<lambda>c'. c_type_id c' = c_type_id c \<and> c_name c' = c_name c) (ms_contexts s1)
                  = None"
    and s2: "s2 = s1\<lparr>ms_contexts := ms_contexts s1 @ [c\<lparr>c_id := i\<rparr>]\<rparr>"
    by simp_all
  from first absent ty s2
  have "get_context_by_type_and_name mem_handler (ct_name t) (StringValue (c_name c)) s2
          = (Inr (Some (c\<lparr>c_id := i\<rparr>)), s2)"
    by (simp add: mem_handler_def mem_get_context_by_type_and_name_def find_append)
  then show "\<exists>c' s3. get_context_by_type_and_name mem_handler (ct_name t)
                         (StringValue (c_name c)) s2 = (Inr (Some c'), s3) \<and> c_id c' = i"
    by simp
qed

theorem register_twice_same_id_witness:
  "fst (register_context_if_not_exist mem_handler (ex_spec ''pipeline'' ''my_pipeline'') None
          ex_empty_world) =
     Inr \<lparr>c_id = 1, c_type_id = 1, c_name = ''my_pipeline'', c_properties = [],
          c_custom_properties = []\<rparr> \<and>
   (\<exists>c2 w2.
      register_context_if_not_exist mem_handler (ex_spec ''pipeline'' ''my_pipeline'') None
        (snd (register_context_if_not_exist mem_handler (ex_spec ''pipeline'' ''my_pipeline'')
                None ex_empty_world)) = (Inr c2, w2) \<and>
      c_id c2 = 1)"
proof -
  let ?c1 = "\<lparr>c_id = 1, c_type_id = 1, c_name = ''my_pipeline'', c_properties = [],
               c_custom_properties = []\<rparr>"
  let ?first = "register_context_if_not_exist mem_handler (ex_spec ''pipeline'' ''my_pipeline'')
                  None ex_empty_world"
  have first: "?first = (Inr ?c1, snd ?first)"
    by code_simp
  have "None = None \<or> None = Some ([] :: mlmd_context list)"
    by simp
  from register_twice_same_id
         [OF mem_handler_lookup_is_stable mem_handler_insert_is_visible this first]
  have "\<exists>c2 w2.
      register_context_if_not_exist mem_handler (ex_spec ''pipeline'' ''my_pipeline'') None
        (snd ?first) = (Inr c2, w2) \<and> c_id c2 = 1"
    by simp
  moreover from first have "fst ?first = Inr ?c1"
    by (metis fst_conv)
  ultimately show ?thesis
    by blast
qed

subsection \<open>The dispatch layer\<close>

lemma perform_effect_eq:
  "f (process_state w) = (r, s') \<Longrightarrow>
   perform_effect e f w = (r, \<lparr>process_state = s', effects = effects w @ [e]\<rparr>)"
  by (simp add: perform_effect_def)

lemma import_class_path_eq:
  "import_class_by_path env (spec_class_path executable_spec) (process_state w) = (r, f1) \<Longrightarrow>
   import_class_path env executable_spec w =
     (r, \<lparr>process_state = f1,
          effects = effects w @ [ImportClassByPath (spec_class_path executable_spec)]\<rparr>)"
  by (cases executable_spec)
    (simp_all add: import_class_path_def spec_class_path_def perform_effect_eq)

lemma run_driver_eq:
  "driver_operator_run_driver env executable_spec config info (process_state w) = (r, f2) \<Longrightarrow>
   run_driver env executable_spec config info w =
     (map_sum id DriverOutput r,
      \<lparr>process_state = f2, effects = effects w @ [RunDriver executable_spec config info]\<rparr>)"
  by (cases r) (simp_all add: run_driver_def perform_effect_eq)

lemma run_executor_eq:
  "dispatcher_run_executor env executable_spec info (process_state w) = (r, f2) \<Longrightarrow>
   run_executor env executable_spec info w =
     (map_sum id (map_option ExecutionResult) r,
      \<lparr>process_state = f2, effects = effects w @ [RunExecutor executable_spec info]\<rparr>)"
  by (cases r) (simp_all add: run_executor_def perform_effect_eq split: option.splits)

text \<open>
  Claim C9. \<^verbatim>\<open>run\<close> first imports the class named by the spec's class path; when the
  import fails nothing is run. After the import, when the connection config flag is set
  to a non-empty value (and deserialises), the driver operator is run with that config,
  and no executor; when the flag is not set (or empty) the executor is run, and no driver.
  A failure of the run is the failure of the call and nothing is written. The driver's
  output, or the executor's result when there is one, is written in serialised form to
  \<^verbatim>\<open>execution_output_uri\<close>, and the outcome of the write is the outcome of the call;
  when the executor returns no result nothing is written.
\<close>

theorem run_dispatches_and_writes_result:
  "(\<forall>e f1. import_class_by_path env (spec_class_path executable_spec) (process_state w)
              = (Inl e, f1) \<longrightarrow>
      run env executable_spec info w =
        (Inl e, \<lparr>process_state = f1,
                 effects = effects w @ [ImportClassByPath (spec_class_path executable_spec)]\<rparr>)) \<and>
   (\<forall>f1 flag config r f2.
      import_class_by_path env (spec_class_path executable_spec) (process_state w)
        = (Inr (), f1) \<and>
      MLMD_CONNECTION_CONFIG_FLAG env = Some flag \<and> flag \<noteq> [] \<and>
      deserialize_mlmd_connection_config env flag = Inr config \<and>
      driver_operator_run_driver env executable_spec config info f1 = (r, f2) \<longrightarrow>
      (case r of
         Inl e \<Rightarrow>
           run env executable_spec info w =
             (Inl e,
              \<lparr>process_state = f2,
               effects = effects w @
                 [ImportClassByPath (spec_class_path executable_spec),
                  RunDriver executable_spec config info]\<rparr>)
       | Inr output \<Rightarrow>
           (\<forall>written f3.
              fileio_write env (execution_output_uri info) output f2 = (written, f3) \<longrightarrow>
              run env executable_spec info w =
                (written,
                 \<lparr>process_state = f3,
                  effects = effects w @
                    [ImportClassByPath (spec_class_path executable_spec),
                     RunDriver executable_spec config info,
                     FileWrite (execution_output_uri info) output]\<rparr>)))) \<and>
   (\<forall>f1 r f2.
      import_class_by_path env (spec_class_path executable_spec) (process_state w)
        = (Inr (), f1) \<and>
      (MLMD_CONNECTION_CONFIG_FLAG env = None \<or> MLMD_CONNECTION_CONFIG_FLAG env = Some []) \<and>
      dispatcher_run_executor env executable_spec info f1 = (r, f2) \<longrightarrow>
      (case r of
         Inl e \<Rightarrow>
           run env executable_spec info w =
             (Inl e,
              \<lparr>process_state = f2,
               effects = effects w @
                 [ImportClassByPath (spec_class_path executable_spec),
                  RunExecutor executable_spec info]\<rparr>)
       | Inr None \<Rightarrow>
           run env executable_spec info w =
             (Inr (),
              \<lparr>process_state = f2,
               effects = effects w @
                 [ImportClassByPath (spec_class_path executable_spec),
                  RunExecutor executable_spec info]\<rparr>)
       | Inr (Some result) \<Rightarrow>
           (\<forall>written f3.
              fileio_write env (execution_output_uri info) result f2 = (written, f3) \<longrightarrow>
              run env executable_spec info w =
                (written,
                 \<lparr>process_state = f3,
                  effects = effects w @
                    [ImportClassByPath (spec_class_path executable_spec),
                     RunExecutor executable_spec info,
                     FileWrite (execution_output_uri info) result]\<rparr>))))"
proof (intro conjI allI impI)
  fix e f1
  assume "import_class_by_path env (spec_class_path executable_spec) (process_state w)
            = (Inl e, f1)"
  from import_class_path_eq [OF this]
  show "run env executable_spec info w =
        (Inl e, \<lparr>process_state = f1,
                 effects = effects w @ [ImportClassByPath (spec_class_path executable_spec)]\<rparr>)"
    by (simp add: run_def run_python_custom_component_def)
next
  fix f1 flag config r f2
  assume a: "import_class_by_path env (spec_class_path executable_spec) (process_state w)
        = (Inr (), f1) \<and>
      MLMD_CONNECTION_CONFIG_FLAG env = Some flag \<and> flag \<noteq> [] \<and>
      deserialize_mlmd_connection_config env flag = Inr config \<and>
      driver_operator_run_driver env executable_spec config info f1 = (r, f2)"
  let ?w1 = "\<lparr>process_state = f1,
              effects = effects w @ [ImportClassByPath (spec_class_path executable_spec)]\<rparr>"
  from a have imp: "import_class_path env executable_spec w = (Inr (), ?w1)"
    by (simp add: import_class_path_eq)
  from a have "driver_operator_run_driver env executable_spec config info (process_state ?w1)
                 = (r, f2)"
    by simp
  from run_driver_eq [OF this] a
  have branch: "run_driver_or_executor env executable_spec info ?w1 =
      (map_sum id (\<lambda>output. Some (DriverOutput output)) r,
       \<lparr>process_state = f2,
        effects = effects w @
          [ImportClassByPath (spec_class_path executable_spec),
           RunDriver executable_spec config info]\<rparr>)"
    by (cases flag; cases r) (simp_all add: run_driver_or_executor_def)
  show "case r of
         Inl e \<Rightarrow>
           run env executable_spec info w =
             (Inl e,
              \<lparr>process_state = f2,
               effects = effects w @
                 [ImportClassByPath (spec_class_path executable_spec),
                  RunDriver executable_spec config info]\<rparr>)
       | Inr output \<Rightarrow>
           (\<forall>written f3.
              fileio_write env (execution_output_uri info) output f2 = (written, f3) \<longrightarrow>
              run env executable_spec info w =
                (written,
                 \<lparr>process_state = f3,
                  effects = effects w @
                    [ImportClassByPath (spec_class_path executable_spec),
                     RunDriver executable_spec config info,
                     FileWrite (execution_output_uri info) output]\<rparr>))"
    by (cases r)
      (simp_all add: run_def run_python_custom_component_def imp branch perform_effect_eq)
next
  fix f1 r f2
  assume a: "import_class_by_path env (spec_class_path executable_spec) (process_state w)
        = (Inr (), f1) \<and>
      (MLMD_CONNECTION_CONFIG_FLAG env = None \<or> MLMD_CONNECTION_CONFIG_FLAG env = Some []) \<and>
      dispatcher_run_executor env executable_spec info f1 = (r, f2)"
  let ?w1 = "\<lparr>process_state = f1,
              effects = effects w @ [ImportClassByPath (spec_class_path executable_spec)]\<rparr>"
  from a have imp: "import_class_path env executable_spec w = (Inr (), ?w1)"
    by (simp add: import_class_path_eq)
  from a have "dispatcher_run_executor env executable_spec info (process_state ?w1) = (r, f2)"
    by simp
  from run_executor_eq [OF this] a
  have branch: "run_driver_or_executor env executable_spec info ?w1 =
      (map_sum id (map_option ExecutionResult) r,
       \<lparr>process_state = f2,
        effects = effects w @
          [ImportClassByPath (spec_class_path executable_spec),
           RunExecutor executable_spec info]\<rparr>)"
    by (auto simp: run_driver_or_executor_def)
  show "case r of
         Inl e \<Rightarrow>
           run env executable_spec info w =
             (Inl e,
              \<lparr>process_state = f2,
               effects = effects w @
                 [ImportClassByPath (spec_class_path executable_spec),
                  RunExecutor executable_spec info]\<rparr>)
       | Inr None \<Rightarrow>
           run env executable_spec info w =
             (Inr (),
              \<lparr>process_state = f2,
               effects = effects w @
                 [ImportClassByPath (spec_class_path executable_spec),
                  RunExecutor executable_spec info]\<rparr>)
       | Inr (Some result) \<Rightarrow>
           (\<forall>written f3.
              fileio_write env (execution_output_uri info) result f2 = (written, f3) \<longrightarrow>
              run env executable_spec info w =
                (written,
                 \<lparr>process_state = f3,
                  effects = effects w @
                    [ImportClassByPath (spec_class_path executable_spec),
                     RunExecutor executable_spec info,
                     FileWrite (execution_output_uri info) result]\<rparr>))"
    by (cases r)
      (simp_all add: run_def run_python_custom_component_def imp branch perform_effect_eq
        split: option.splits)
qed

theorem run_dispatches_and_writes_result_witness:
  "run ex_driver_env (PythonClassExecutableSpec ''my.Driver'')
     \<lparr>execution_output_uri = ''/out''\<rparr> ex_process =
     (Inr (),
      \<lparr>process_state = [(''/out'', ''driver output'')],
       effects =
         [ImportClassByPath ''my.Driver'',
          RunDriver (PythonClassExecutableSpec ''my.Driver'') ''config:Y29uZmln''
            \<lparr>execution_output_uri = ''/out''\<rparr>,
          FileWrite ''/out'' ''driver output'']\<rparr>) \<and>
   run ex_executor_env (BeamExecutableSpec ''my.Executor'' [])
     \<lparr>execution_output_uri = ''/out''\<rparr> ex_process =
     (Inr (),
      \<lparr>process_state = [(''/out'', ''execution result'')],
       effects =
         [ImportClassByPath ''my.Executor'',
          RunExecutor (BeamExecutableSpec ''my.Executor'' [])
            \<lparr>execution_output_uri = ''/out''\<rparr>,
          FileWrite ''/out'' ''execution result'']\<rparr>)"
proof -
  let ?driver = "PythonClassExecutableSpec ''my.Driver''"
  let ?executor = "BeamExecutableSpec ''my.Executor'' []"
  let ?info = "\<lparr>execution_output_uri = ''/out''\<rparr>"
  have driver_run:
    "import_class_by_path ex_driver_env (spec_class_path ?driver) (process_state ex_process)
       = (Inr (), []) \<and>
     MLMD_CONNECTION_CONFIG_FLAG ex_driver_env = Some ''Y29uZmln'' \<and> ''Y29uZmln'' \<noteq> [] \<and>
     deserialize_mlmd_connection_config ex_driver_env ''Y29uZmln'' = Inr ''config:Y29uZmln'' \<and>
     driver_operator_run_driver ex_driver_env ?driver ''config:Y29uZmln'' ?info []
       = (Inr ''driver output'', [])"
    by code_simp
  have driver_write:
    "fileio_write ex_driver_env (execution_output_uri ?info) ''driver output'' []
       = (Inr (), [(''/out'', ''driver output'')])"
    by code_simp
  have executor_run:
    "import_class_by_path ex_executor_env (spec_class_path ?executor) (process_state ex_process)
       = (Inr (), []) \<and>
     (MLMD_CONNECTION_CONFIG_FLAG ex_executor_env = None \<or>
      MLMD_CONNECTION_CONFIG_FLAG ex_executor_env = Some []) \<and>
     dispatcher_run_executor ex_executor_env ?executor ?info []
       = (Inr (Some ''execution result''), [])"
    by code_simp
  have executor_write:
    "fileio_write ex_executor_env (execution_output_uri ?info) ''execution result'' []
       = (Inr (), [(''/out'', ''execution result'')])"
    by code_simp
  have paths: "spec_class_path ?driver = ''my.Driver''"
    "spec_class_path ?executor = ''my.Executor''" "effects ex_process = []"
    by (simp_all add: spec_class_path_def ex_process_def)
  from run_dispatches_and_writes_result [of ex_driver_env ?driver ex_process ?info,
      THEN conjunct2, THEN conjunct1, rule_format, OF driver_run]
  have "\<forall>written f3.
          fileio_write ex_driver_env (execution_output_uri ?info) ''driver output'' []
            = (written, f3) \<longrightarrow>
          run ex_driver_env ?driver ?info ex_process =
            (written,
             \<lparr>process_state = f3,
              effects = effects ex_process @
                [ImportClassByPath (spec_class_path ?driver),
                 RunDriver ?driver ''config:Y29uZmln'' ?info,
                 FileWrite (execution_output_uri ?info) ''driver output'']\<rparr>)"
    by simp
  with driver_write
  have "run ex_driver_env ?driver ?info ex_process =
            (Inr (),
             \<lparr>process_state = [(''/out'', ''driver output'')],
              effects = effects ex_process @
                [ImportClassByPath (spec_class_path ?driver),
                 RunDriver ?driver ''config:Y29uZmln'' ?info,
                 FileWrite (execution_output_uri ?info) ''driver output'']\<rparr>)"
    by blast
  then have driver: "run ex_driver_env ?driver ?info ex_process =
     (Inr (),
      \<lparr>process_state = [(''/out'', ''driver output'')],
       effects =
         [ImportClassByPath ''my.Driver'', RunDriver ?driver ''config:Y29uZmln'' ?info,
          FileWrite ''/out'' ''driver output'']\<rparr>)"
    by (simp add: paths)
  from run_dispatches_and_writes_result [of ex_executor_env ?executor ex_process ?info,
      THEN conjunct2, THEN conjunct2, rule_format, OF executor_run]
  have "\<forall>written f3.
          fileio_write ex_executor_env (execution_output_uri ?info) ''execution result'' []
            = (written, f3) \<longrightarrow>
          run ex_executor_env ?executor ?info ex_process =
            (written,
             \<lparr>process_state = f3,
              effects = effects ex_process @
                [ImportClassByPath (spec_class_path ?executor),
                 RunExecutor ?executor ?info,
                 FileWrite (execution_output_uri ?info) ''execution result'']\<rparr>)"
    by simp
  with executor_write
  have "run ex_executor_env ?executor ?info ex_process =
            (Inr (),
             \<lparr>process_state = [(''/out'', ''execution result'')],
              effects = effects ex_process @
                [ImportClassByPath (spec_class_path ?executor),
                 RunExecutor ?executor ?info,
                 FileWrite (execution_output_uri ?info) ''execution result'']\<rparr>)"
    by blast
  then have executor: "run ex_executor_env ?executor ?info ex_process =
     (Inr (),
      \<lparr>process_state = [(''/out'', ''execution result'')],
       effects =
         [ImportClassByPath ''my.Executor'', RunExecutor ?executor ?info,
          FileWrite ''/out'' ''execution result'']\<rparr>)"
    by (simp add: paths)
  from driver executor show ?thesis
    by blast
qed

end
